theory Spec2Isabelle
  imports Main
begin

section \<open>Values of the host platform\<close>

text \<open>
  Host objects (media streams, blobs, object URLs, timers, animation requests) are
  identified by a natural number handed out by the host; two references denote the same
  object exactly when the numbers agree. A blob also carries its size in bytes.
\<close>

datatype blob = Blob (ident: nat) (blob_size: nat)

type_synonym url = nat
type_synonym stream = nat

datatype js_error = Error (name: string) (message: string)

datatype permission_state = Granted | Denied | Prompt

subsection \<open>JavaScript \<open>Set\<close>\<close>

text \<open>
  A \<open>Set\<close> keeps its members without repetition and iterates them in insertion order:
  a list without duplicates. \<open>add\<close> of a member leaves the set as it is.
\<close>

definition set_add :: "'a \<Rightarrow> 'a list \<Rightarrow> 'a list" where
  "set_add x xs = (if x \<in> set xs then xs else xs @ [x])"

definition set_delete :: "'a \<Rightarrow> 'a list \<Rightarrow> 'a list" where
  "set_delete x xs = removeAll x xs"

subsection \<open>Strings and numbers\<close>

text \<open>
  \<open>String.prototype.trim\<close> strips white space and line terminators from both ends.
  Of the code units a \<open>char\<close> can hold these are 9 to 13, 32 and 160.
\<close>

definition is_white_space :: "char \<Rightarrow> bool" where
  "is_white_space c = ((of_char c :: nat) \<in> {9, 10, 11, 12, 13, 32, 160})"

definition trim :: "string \<Rightarrow> string" where
  "trim s = rev (dropWhile is_white_space (rev (dropWhile is_white_space s)))"

text \<open>
  The numeric settings are integers (the range inputs deliver whole numbers, converted
  with \<open>Number\<close>). A template literal prints an integer of magnitude below
  \<open>10\<^sup>2\<^sup>1\<close> in decimal, with a minus sign if it is negative; \<open>number_toString\<close> is the
  printed form of such an integer, and the statements about it keep to this range, which
  contains the ranges of the sliders.
\<close>

fun digits :: "nat \<Rightarrow> string" where
  "digits n = (if n < 10 then [''0123456789'' ! n]
               else digits (n div 10) @ [''0123456789'' ! (n mod 10)])"

declare digits.simps [simp del]

definition number_toString :: "int \<Rightarrow> string" where
  "number_toString i = (if i < 0 then CHR ''-'' # digits (nat (- i)) else digits (nat i))"

section \<open>Component state\<close>

text \<open>
  The values of the \<open>useState\<close> variables as one render of \<open>CameraRecorder\<close> sees them.
  Every handler is a closure created during a render: it reads these constants of its
  own render, and a setter does not change them, it stores the value for the next render.
\<close>

record render =
  isRecording :: bool
  videoUrl :: "url option"
  facingMode :: string
  isPreviewing :: bool
  filter_st :: string
  mirror :: bool
  crop :: bool
  isLoading :: bool
  error :: "string option"
  recordingTime :: nat
  videoQuality :: string
  brightness :: int
  contrast :: int
  saturation :: int
  videoSize :: "nat option"

definition initialRender :: render where
  "initialRender =
     \<lparr> isRecording = False, videoUrl = None, facingMode = ''user'', isPreviewing = False,
       filter_st = ''none'', mirror = False, crop = False, isLoading = False, error = None,
       recordingTime = 0, videoQuality = ''1080p'', brightness = 100, contrast = 100,
       saturation = 100, videoSize = None \<rparr>"

subsection \<open>\<open>applyFilters\<close>\<close>

definition applyFilters :: "render \<Rightarrow> string" where
  "applyFilters r =
     (let filterString = '''';
          filterString = (if filter_st r \<noteq> ''none''
                          then filterString @ filter_st r @ '' '' else filterString);
          filterString = (if brightness r \<noteq> 100
                          then filterString @ ''brightness('' @ number_toString (brightness r) @ ''%) ''
                          else filterString);
          filterString = (if contrast r \<noteq> 100
                          then filterString @ ''contrast('' @ number_toString (contrast r) @ ''%) ''
                          else filterString);
          filterString = (if saturation r \<noteq> 100
                          then filterString @ ''saturate('' @ number_toString (saturation r) @ ''%) ''
                          else filterString)
      in if trim filterString = '''' then ''none'' else trim filterString)"

text \<open>The named filters: the values that the options of the filter select offer.\<close>

definition filterOptions :: "string list" where
  "filterOptions =
     [''none'', ''grayscale(100%)'', ''sepia(100%)'', ''invert(100%)'', ''blur(2px)'',
      ''hue-rotate(90deg)'']"

section \<open>Refs, the memory manager and the host\<close>

datatype constraints =
  Constraints (c_facingMode: string) (width_ideal: nat) (height_ideal: nat)
    (frameRate_ideal: nat) (frameRate_max: nat)

record mediaRecorder =
  rec_stream :: stream
  mimeType :: string
  videoBitsPerSecond :: nat
  rec_state :: string

text \<open>The module-level \<open>memoryManager\<close>: two sets.\<close>

record memoryManager =
  chunks :: "blob list"
  urls :: "url list"

text \<open>Calls into the host, in the order in which they are made.\<close>

datatype event =
    GetUserMedia constraints
  | VideoPlay
  | AddLoadedMetadataListener
  | PermissionsQuery string
  | SetTimeout nat
  | SetInterval nat
  | ClearInterval nat
  | CancelAnimationFrame nat
  | TrackStop stream
  | CreateObjectURL url
  | RevokeObjectURL url
  | WorkerTerminate nat
  | RecorderStart nat
  | RecorderStop
  | Gc

text \<open>
  The callbacks handed to \<open>setTimeout\<close>. Each is a closure of the render in which it was
  created, so it carries that render.
\<close>

datatype callback =
    RetryPreview render
  | RestartPreview render
  | GcLater

text \<open>
  The mutable world of the component: the React state as the setters leave it, the
  \<open>useRef\<close> cells, the memory manager, and what the host holds on the component's
  behalf (streams whose tracks are live, object URLs not yet revoked, timers, workers).
  The canvas, its drawing context and the offscreen canvas hold none of these resources
  and are left out.
\<close>

record world =
  state :: render
  mediaRecorderRef :: "mediaRecorder option"
  videoStreamRef :: "stream option"
  srcObject :: "stream option"
  recordedChunks :: "blob list"
  animationFrameRef :: "nat option"
  recordingIntervalRef :: "nat option"
  videoWorkerRef :: "nat option"
  mm :: memoryManager
  liveStreams :: "stream list"
  objectUrls :: "url list"
  intervals :: "nat list"
  animationRequests :: "nat list"
  workers :: "nat list"
  timeouts :: "(nat \<times> callback) list"
  hasGc :: bool
  nextId :: nat
  log :: "event list"

definition initialWorld :: world where
  "initialWorld =
     \<lparr> state = initialRender, mediaRecorderRef = None, videoStreamRef = None,
       srcObject = None, recordedChunks = [], animationFrameRef = None,
       recordingIntervalRef = None, videoWorkerRef = None,
       mm = \<lparr> chunks = [], urls = [] \<rparr>,
       liveStreams = [], objectUrls = [], intervals = [], animationRequests = [],
       workers = [], timeouts = [], hasGc = False, nextId = 0, log = [] \<rparr>"

subsection \<open>State setters\<close>

definition setIsRecording :: "bool \<Rightarrow> world \<Rightarrow> world" where
  "setIsRecording b w = w\<lparr>state := (state w)\<lparr>isRecording := b\<rparr>\<rparr>"

definition setVideoUrl :: "url option \<Rightarrow> world \<Rightarrow> world" where
  "setVideoUrl u w = w\<lparr>state := (state w)\<lparr>videoUrl := u\<rparr>\<rparr>"

definition setFacingMode :: "string \<Rightarrow> world \<Rightarrow> world" where
  "setFacingMode m w = w\<lparr>state := (state w)\<lparr>facingMode := m\<rparr>\<rparr>"

definition setIsPreviewing :: "bool \<Rightarrow> world \<Rightarrow> world" where
  "setIsPreviewing b w = w\<lparr>state := (state w)\<lparr>isPreviewing := b\<rparr>\<rparr>"

definition setIsLoading :: "bool \<Rightarrow> world \<Rightarrow> world" where
  "setIsLoading b w = w\<lparr>state := (state w)\<lparr>isLoading := b\<rparr>\<rparr>"

definition setError :: "string option \<Rightarrow> world \<Rightarrow> world" where
  "setError e w = w\<lparr>state := (state w)\<lparr>error := e\<rparr>\<rparr>"

definition setRecordingTime :: "nat \<Rightarrow> world \<Rightarrow> world" where
  "setRecordingTime t w = w\<lparr>state := (state w)\<lparr>recordingTime := t\<rparr>\<rparr>"

definition setVideoSize :: "nat option \<Rightarrow> world \<Rightarrow> world" where
  "setVideoSize n w = w\<lparr>state := (state w)\<lparr>videoSize := n\<rparr>\<rparr>"

subsection \<open>Host operations\<close>

text \<open>
  Handles issued by the host are positive. A ref that holds a number is truthy when the
  number is not zero.
\<close>

definition emit :: "event \<Rightarrow> world \<Rightarrow> world" where
  "emit e w = w\<lparr>log := log w @ [e]\<rparr>"

definition fresh :: "world \<Rightarrow> nat \<times> world" where
  "fresh w = (Suc (nextId w), w\<lparr>nextId := Suc (nextId w)\<rparr>)"

text \<open>
  \<open>getUserMedia\<close> either rejects with the host's error or resolves with a new stream
  whose tracks are live.
\<close>

definition getUserMedia :: "constraints \<Rightarrow> js_error option \<Rightarrow> world \<Rightarrow> (js_error + stream) \<times> world" where
  "getUserMedia c answer w =
     (let w1 = emit (GetUserMedia c) w
      in case answer of
           Some e \<Rightarrow> (Inl e, w1)
         | None \<Rightarrow> (let (s, w2) = fresh w1
                    in (Inr s, w2\<lparr>liveStreams := liveStreams w2 @ [s]\<rparr>)))"

definition stopTracks :: "stream \<Rightarrow> world \<Rightarrow> world" where
  "stopTracks s w = emit (TrackStop s) (w\<lparr>liveStreams := removeAll s (liveStreams w)\<rparr>)"

definition createObjectURL :: "world \<Rightarrow> url \<times> world" where
  "createObjectURL w =
     (let (u, w1) = fresh w
      in (u, emit (CreateObjectURL u) (w1\<lparr>objectUrls := objectUrls w1 @ [u]\<rparr>)))"

definition revokeObjectURL :: "url \<Rightarrow> world \<Rightarrow> world" where
  "revokeObjectURL u w = emit (RevokeObjectURL u) (w\<lparr>objectUrls := removeAll u (objectUrls w)\<rparr>)"

definition cancelAnimationFrame :: "nat \<Rightarrow> world \<Rightarrow> world" where
  "cancelAnimationFrame a w =
     emit (CancelAnimationFrame a) (w\<lparr>animationRequests := removeAll a (animationRequests w)\<rparr>)"

definition clearInterval :: "nat \<Rightarrow> world \<Rightarrow> world" where
  "clearInterval t w = emit (ClearInterval t) (w\<lparr>intervals := removeAll t (intervals w)\<rparr>)"

definition setInterval :: "nat \<Rightarrow> world \<Rightarrow> nat \<times> world" where
  "setInterval ms w =
     (let (t, w1) = fresh w
      in (t, emit (SetInterval ms) (w1\<lparr>intervals := intervals w1 @ [t]\<rparr>)))"

definition setTimeout :: "callback \<Rightarrow> nat \<Rightarrow> world \<Rightarrow> world" where
  "setTimeout cb ms w = emit (SetTimeout ms) (w\<lparr>timeouts := timeouts w @ [(ms, cb)]\<rparr>)"

subsection \<open>\<open>memoryManager\<close>\<close>

definition addChunk :: "blob \<Rightarrow> memoryManager \<Rightarrow> memoryManager" where
  "addChunk chunk m = m\<lparr>chunks := set_add chunk (chunks m)\<rparr>"

definition addUrl :: "url \<Rightarrow> memoryManager \<Rightarrow> memoryManager" where
  "addUrl u m = m\<lparr>urls := set_add u (urls m)\<rparr>"

definition cleanup :: "world \<Rightarrow> world" where
  "cleanup w =
     (let w1 = foldl (\<lambda>v u. revokeObjectURL u v) w (urls (mm w));
          w2 = w1\<lparr>mm := (mm w1)\<lparr>urls := [], chunks := []\<rparr>\<rparr>
      in if hasGc w2 then emit Gc w2 else w2)"

subsection \<open>\<open>addRecordedChunk\<close>\<close>

definition addRecordedChunk :: "blob \<Rightarrow> world \<Rightarrow> world" where
  "addRecordedChunk chunk w =
     (let w1 = w\<lparr>recordedChunks := recordedChunks w @ [chunk]\<rparr>;
          w2 = w1\<lparr>mm := addChunk chunk (mm w1)\<rparr>
      in if length (recordedChunks w2) > 1000
         then (let oldChunks = take 500 (recordedChunks w2);
                   w3 = w2\<lparr>recordedChunks := drop 500 (recordedChunks w2)\<rparr>
               in w3\<lparr>mm := foldl (\<lambda>m c. m\<lparr>chunks := set_delete c (chunks m)\<rparr>) (mm w3) oldChunks\<rparr>)
         else w2)"

text \<open>A sequence of appends, oldest first.\<close>

fun appendAll :: "blob list \<Rightarrow> world \<Rightarrow> world" where
  "appendAll [] w = w"
| "appendAll (c # cs) w = appendAll cs (addRecordedChunk c w)"

text \<open>
  The buffer's invariant between appends: at most 1000 chunks, no chunk twice, and every
  chunk of the buffer a member of the registry.
\<close>

definition buffer_inv :: "world \<Rightarrow> bool" where
  "buffer_inv w \<longleftrightarrow> length (recordedChunks w) \<le> 1000 \<and> distinct (recordedChunks w)
      \<and> set (recordedChunks w) \<subseteq> set (chunks (mm w))"

section \<open>Device acquisition\<close>

text \<open>
  What the host answers to the calls a handler awaits or that may throw. \<open>None\<close> says
  that the call succeeds; a permission query yields a state or throws.
\<close>

record answers =
  gumAnswer :: "js_error option"
  playAnswer :: "js_error option"
  cameraAnswer :: "js_error + permission_state"
  microphoneAnswer :: "js_error + permission_state"
  isTypeSupported :: "string \<Rightarrow> bool"
  recorderAnswer :: "js_error option"
  startAnswer :: "js_error option"

definition getVideoConstraints :: "render \<Rightarrow> constraints" where
  "getVideoConstraints r =
     Constraints (facingMode r)
       (if videoQuality r = ''1080p'' then 1920 else if videoQuality r = ''720p'' then 1280 else 640)
       (if videoQuality r = ''1080p'' then 1080 else if videoQuality r = ''720p'' then 720 else 480)
       30 60"

text \<open>
  The \<open>try\<close> block of \<open>startPreview\<close>; the result says what it threw, if anything. The
  draw loop is attached as a listener and is represented by the cell
  \<open>animationFrameRef\<close> that it writes.
\<close>

definition startPreview_try :: "render \<Rightarrow> answers \<Rightarrow> world \<Rightarrow> js_error option \<times> world" where
  "startPreview_try r a w =
     (let w1 = setIsLoading True w;
          w2 = setError None w1;
          (res, w3) = getUserMedia (getVideoConstraints r) (gumAnswer a) w2
      in case res of
           Inl err \<Rightarrow> (Some err, w3)
         | Inr stream \<Rightarrow>
             (let w4 = w3\<lparr>videoStreamRef := Some stream\<rparr>;
                  w5 = w4\<lparr>srcObject := Some stream\<rparr>;
                  w6 = setIsPreviewing True w5;
                  w7 = emit VideoPlay w6
              in case playAnswer a of
                   Some err \<Rightarrow> (Some err, w7)
                 | None \<Rightarrow> (None, emit AddLoadedMetadataListener w7)))"

definition startPreview_catch :: "render \<Rightarrow> answers \<Rightarrow> js_error \<Rightarrow> world \<Rightarrow> world" where
  "startPreview_catch r a err w =
     (if name err = ''NotAllowedError'' \<or> name err = ''PermissionDeniedError''
      then (let w1 = emit (PermissionsQuery ''camera'') w
            in case cameraAnswer a of
                 Inl permErr \<Rightarrow>
                   setError (Some ''Unable to check permissions. Please ensure camera and microphone access is allowed and try again.'') w1
               | Inr permissions \<Rightarrow>
                   (let w2 = emit (PermissionsQuery ''microphone'') w1
                    in case microphoneAnswer a of
                         Inl permErr \<Rightarrow>
                           setError (Some ''Unable to check permissions. Please ensure camera and microphone access is allowed and try again.'') w2
                       | Inr micPermissions \<Rightarrow>
                           if permissions = Denied \<or> micPermissions = Denied
                           then setError (Some ''Camera and microphone access is required. Please enable permissions in your browser settings and try again.'') w2
                           else setTimeout (RetryPreview r) 1000 w2))
      else setError (Some (''Failed to start preview: '' @ message err)) w)"

definition startPreview :: "render \<Rightarrow> answers \<Rightarrow> world \<Rightarrow> world" where
  "startPreview r a w =
     (let (thrown, w1) = startPreview_try r a w;
          w2 = (case thrown of None \<Rightarrow> w1 | Some err \<Rightarrow> startPreview_catch r a err w1)
      in setIsLoading False w2)"

text \<open>The callback that \<open>startPreview\<close> schedules after 1000 ms: the second attempt.\<close>

definition retryPreview :: "render \<Rightarrow> answers \<Rightarrow> world \<Rightarrow> world" where
  "retryPreview r a w =
     (let (res, w1) = getUserMedia (getVideoConstraints r) (gumAnswer a) w
      in case res of
           Inl retryErr \<Rightarrow>
             setError (Some (''Please grant camera and microphone permissions and try again. Error: '' @ message retryErr)) w1
         | Inr stream \<Rightarrow>
             (let w2 = w1\<lparr>videoStreamRef := Some stream\<rparr>;
                  w3 = w2\<lparr>srcObject := Some stream\<rparr>;
                  w4 = setIsPreviewing True w3;
                  w5 = setError None w4;
                  w6 = emit VideoPlay w5
              in case playAnswer a of
                   Some retryErr \<Rightarrow>
                     setError (Some (''Please grant camera and microphone permissions and try again. Error: '' @ message retryErr)) w6
                 | None \<Rightarrow> emit AddLoadedMetadataListener w6))"

definition stopPreview :: "world \<Rightarrow> world" where
  "stopPreview w =
     (let w1 = (case videoStreamRef w of Some s \<Rightarrow> stopTracks s w | None \<Rightarrow> w);
          w2 = (case animationFrameRef w1 of
                  Some a \<Rightarrow> if a \<noteq> 0 then cancelAnimationFrame a w1 else w1
                | None \<Rightarrow> w1)
      in setIsPreviewing False w2)"

section \<open>Recording\<close>

definition setRecorderState :: "string \<Rightarrow> world \<Rightarrow> world" where
  "setRecorderState st w =
     w\<lparr>mediaRecorderRef := map_option (\<lambda>m. m\<lparr>rec_state := st\<rparr>) (mediaRecorderRef w)\<rparr>"

text \<open>\<open>MediaRecorder.stop\<close>: the recorder becomes inactive; its events arrive later.\<close>

definition recorderStop :: "world \<Rightarrow> world" where
  "recorderStop w = emit RecorderStop (setRecorderState ''inactive'' w)"

text \<open>
  The \<open>try\<close> block of \<open>startRecording\<close>. The stream of a running preview is reused;
  otherwise a stream is acquired and stored in \<open>videoStreamRef\<close>.
\<close>

definition startRecording_try :: "render \<Rightarrow> answers \<Rightarrow> world \<Rightarrow> js_error option \<times> world" where
  "startRecording_try r a w =
     (let w1 = setIsLoading True w;
          w2 = setError None w1;
          w3 = setRecordingTime 0 w2;
          (res, w4) =
            (case (if isPreviewing r then videoStreamRef w3 else None) of
               Some s \<Rightarrow> (Inr s, w3)
             | None \<Rightarrow>
                 (let (g, v) = getUserMedia (getVideoConstraints r) (gumAnswer a) w3
                  in case g of
                       Inl err \<Rightarrow> (Inl err, v)
                     | Inr s \<Rightarrow> (Inr s, v\<lparr>videoStreamRef := Some s\<rparr>)))
      in case res of
           Inl err \<Rightarrow> (Some err, w4)
         | Inr stream \<Rightarrow>
             (let preferred = ''video/webm;codecs=vp9,opus'';
                  bits = (if videoQuality r = ''1080p'' then 5000000
                          else if videoQuality r = ''720p'' then 2500000
                          else 1000000);
                  mime = (if \<not> isTypeSupported a preferred then ''video/webm'' else preferred)
              in case recorderAnswer a of
                   Some err \<Rightarrow> (Some err, w4)
                 | None \<Rightarrow>
                     (let w5 = w4\<lparr>mediaRecorderRef :=
                                    Some \<lparr> rec_stream = stream, mimeType = mime,
                                           videoBitsPerSecond = bits, rec_state = ''inactive'' \<rparr>\<rparr>;
                          w6 = w5\<lparr>recordedChunks := []\<rparr>
                      in case startAnswer a of
                           Some err \<Rightarrow> (Some err, w6)
                         | None \<Rightarrow>
                             (let w7 = emit (RecorderStart 1000) (setRecorderState ''recording'' w6);
                                  w8 = setIsRecording True w7;
                                  (t, w9) = setInterval 1000 w8
                              in (None, w9\<lparr>recordingIntervalRef := Some t\<rparr>)))))"

definition startRecording :: "render \<Rightarrow> answers \<Rightarrow> world \<Rightarrow> world" where
  "startRecording r a w =
     (let (thrown, w1) = startRecording_try r a w;
          w2 = (case thrown of
                  None \<Rightarrow> w1
                | Some err \<Rightarrow> setError (Some (''Failed to start recording: '' @ message err)) w1)
      in setIsLoading False w2)"

definition ondataavailable :: "blob \<Rightarrow> world \<Rightarrow> world" where
  "ondataavailable dat w = (if blob_size dat > 0 then addRecordedChunk dat w else w)"

text \<open>
  The \<open>onstop\<close> handler. A blob built from blobs has the sum of their sizes. Neither the
  \<open>Blob\<close> constructor nor \<open>createObjectURL\<close> throws on these arguments, so the handler's
  \<open>catch\<close> branch is not entered.
\<close>

definition onstop :: "world \<Rightarrow> world" where
  "onstop w =
     (let (b, w1) = fresh w;
          blob = Blob b (sum_list (map blob_size (recordedChunks w1)));
          (u, w2) = createObjectURL w1;
          w3 = w2\<lparr>mm := addUrl u (mm w2)\<rparr>;
          w4 = setVideoUrl (Some u) w3;
          w5 = setVideoSize (Some (blob_size blob)) w4;
          w6 = w5\<lparr>recordedChunks := []\<rparr>
      in if hasGc w6 then setTimeout GcLater 1000 w6 else w6)"

definition stopRecording :: "render \<Rightarrow> world \<Rightarrow> world" where
  "stopRecording r w =
     (let w1 = (case mediaRecorderRef w of
                  Some m \<Rightarrow> if rec_state m = ''recording'' then recorderStop w else w
                | None \<Rightarrow> w);
          w2 = (case recordingIntervalRef w1 of
                  Some t \<Rightarrow> if t \<noteq> 0 then clearInterval t w1 else w1
                | None \<Rightarrow> w1);
          w3 = (case (if \<not> isPreviewing r then videoStreamRef w2 else None) of
                  Some s \<Rightarrow> stopTracks s w2
                | None \<Rightarrow> w2)
      in setIsRecording False w3)"

section \<open>Switching the camera, mounting and unmounting\<close>

definition switchCamera :: "render \<Rightarrow> world \<Rightarrow> world" where
  "switchCamera r w =
     (let newFacingMode = (if facingMode r = ''user'' then ''environment'' else ''user'');
          w1 = setFacingMode newFacingMode w
      in if isPreviewing r
         then setTimeout (RestartPreview r) 100 (stopPreview w1)
         else w1)"

text \<open>
  A timeout fires. The host fires timers by due time; \<open>fireTimeout\<close> runs the pending
  callback that was scheduled first, which is the one that is due when a single timeout
  is pending, as in every run considered below. \<open>RestartPreview r\<close> is the arrow
  function of \<open>switchCamera\<close>, which calls the \<open>startPreview\<close> of render \<open>r\<close>.
\<close>

definition runCallback :: "callback \<Rightarrow> answers \<Rightarrow> world \<Rightarrow> world" where
  "runCallback cb a w =
     (case cb of
        RetryPreview r \<Rightarrow> retryPreview r a w
      | RestartPreview r \<Rightarrow> startPreview r a w
      | GcLater \<Rightarrow> emit Gc w)"

definition fireTimeout :: "answers \<Rightarrow> world \<Rightarrow> world" where
  "fireTimeout a w =
     (case timeouts w of
        [] \<Rightarrow> w
      | (ms, cb) # rest \<Rightarrow> runCallback cb a (w\<lparr>timeouts := rest\<rparr>))"

text \<open>
  \<open>createVideoWorker\<close> makes a blob of the worker's code, an object URL for it and a
  worker from the URL.
\<close>

definition createVideoWorker :: "world \<Rightarrow> nat \<times> world" where
  "createVideoWorker w =
     (let (b, w1) = fresh w;
          (u, w2) = createObjectURL w1;
          (k, w3) = fresh w2
      in (k, w3\<lparr>workers := workers w3 @ [k]\<rparr>))"

text \<open>The effect that runs once when the component mounts, and the function it returns.\<close>

definition mountEffect :: "world \<Rightarrow> world" where
  "mountEffect w = (let (k, w1) = createVideoWorker w in w1\<lparr>videoWorkerRef := Some k\<rparr>)"

definition workerTerminate :: "nat \<Rightarrow> world \<Rightarrow> world" where
  "workerTerminate k w = emit (WorkerTerminate k) (w\<lparr>workers := removeAll k (workers w)\<rparr>)"

definition unmountCleanup :: "world \<Rightarrow> world" where
  "unmountCleanup w =
     (let w1 = (case animationFrameRef w of
                  Some a \<Rightarrow> if a \<noteq> 0 then cancelAnimationFrame a w else w
                | None \<Rightarrow> w);
          w2 = (case recordingIntervalRef w1 of
                  Some t \<Rightarrow> if t \<noteq> 0 then clearInterval t w1 else w1
                | None \<Rightarrow> w1);
          w3 = (case videoWorkerRef w2 of
                  Some k \<Rightarrow> if k \<noteq> 0 then workerTerminate k w2 else w2
                | None \<Rightarrow> w2)
      in cleanup w3)"

section \<open>Observations on a run\<close>

text \<open>The number of device acquisitions requested so far.\<close>

fun isAcquisition :: "event \<Rightarrow> bool" where
  "isAcquisition (GetUserMedia c) = True"
| "isAcquisition _ = False"

definition acquisitions :: "world \<Rightarrow> nat" where
  "acquisitions w = length (filter isAcquisition (log w))"

text \<open>The host calls that a handler added to the log of \<open>w\<close> in reaching \<open>w'\<close>.\<close>

definition calls :: "world \<Rightarrow> world \<Rightarrow> event list" where
  "calls w w' = drop (length (log w)) (log w')"

text \<open>The handle in a ref, if the ref is truthy.\<close>

definition held :: "nat option \<Rightarrow> nat list" where
  "held r = (case r of Some i \<Rightarrow> if i \<noteq> 0 then [i] else [] | None \<Rightarrow> [])"

text \<open>The calls that cancel a timer or an animation callback, or revoke a URL.\<close>

fun isCancelOrRevoke :: "event \<Rightarrow> bool" where
  "isCancelOrRevoke (CancelAnimationFrame a) = True"
| "isCancelOrRevoke (ClearInterval t) = True"
| "isCancelOrRevoke (RevokeObjectURL u) = True"
| "isCancelOrRevoke _ = False"

text \<open>The error kinds that \<open>startPreview\<close> treats as a denied permission.\<close>

definition permissionDenial :: "js_error \<Rightarrow> bool" where
  "permissionDenial err \<longleftrightarrow> name err = ''NotAllowedError'' \<or> name err = ''PermissionDeniedError''"

text \<open>
  The Start Preview button is rendered when the component neither previews nor records,
  and is disabled while loading.
\<close>

definition startPreviewOffered :: "render \<Rightarrow> bool" where
  "startPreviewOffered r \<longleftrightarrow> \<not> isPreviewing r \<and> \<not> isRecording r \<and> \<not> isLoading r"

text \<open>The Switch Camera button is disabled while recording or loading.\<close>

definition switchCameraOffered :: "render \<Rightarrow> bool" where
  "switchCameraOffered r \<longleftrightarrow> \<not> (isRecording r \<or> isLoading r)"

text \<open>A host on which every call succeeds and the preferred codec pair is supported.\<close>

definition allSucceed :: answers where
  "allSucceed =
     \<lparr> gumAnswer = None, playAnswer = None, cameraAnswer = Inr Granted,
       microphoneAnswer = Inr Granted, isTypeSupported = (\<lambda>t. True),
       recorderAnswer = None, startAnswer = None \<rparr>"

section \<open>The chunk buffer\<close>

lemma foldl_delete_chunks:
  "chunks (foldl (\<lambda>m c. m\<lparr>chunks := set_delete c (chunks m)\<rparr>) m old)
     = filter (\<lambda>x. x \<notin> set old) (chunks m)"
  by (induction old arbitrary: m) (auto simp: set_delete_def removeAll_filter_not_eq intro: filter_cong)

lemma foldl_delete_urls:
  "urls (foldl (\<lambda>m c. m\<lparr>chunks := set_delete c (chunks m)\<rparr>) m old) = urls m"
  by (induction old arbitrary: m) auto

lemma set_set_add: "set (set_add x xs) = insert x (set xs)"
  by (auto simp: set_add_def)

lemma recordedChunks_addRecordedChunk:
  "recordedChunks (addRecordedChunk c w) =
     (if 1000 \<le> length (recordedChunks w) then drop 500 (recordedChunks w @ [c])
      else recordedChunks w @ [c])"
  by (simp add: addRecordedChunk_def Let_def)

lemma chunks_addRecordedChunk:
  "chunks (mm (addRecordedChunk c w)) =
     (if 1000 \<le> length (recordedChunks w)
      then filter (\<lambda>x. x \<notin> set (take 500 (recordedChunks w @ [c]))) (set_add c (chunks (mm w)))
      else set_add c (chunks (mm w)))"
  by (simp add: addRecordedChunk_def Let_def foldl_delete_chunks addChunk_def)

lemma distinct_drop_not_in_take:
  assumes "distinct xs" "x \<in> set (drop n xs)" shows "x \<notin> set (take n xs)"
proof -
  from assms(1) have "distinct (take n xs @ drop n xs)" by simp
  then have "set (take n xs) \<inter> set (drop n xs) = {}" by (simp only: distinct_append)
  with assms(2) show ?thesis by blast
qed

lemma buffer_inv_step:
  assumes "buffer_inv w" "c \<notin> set (recordedChunks w)"
  shows "buffer_inv (addRecordedChunk c w)"
proof (cases "1000 \<le> length (recordedChunks w)")
  case False
  with assms show ?thesis
    by (auto simp: buffer_inv_def recordedChunks_addRecordedChunk chunks_addRecordedChunk set_set_add)
next
  case True
  let ?b = "recordedChunks w @ [c]"
  from assms have d: "distinct ?b" by (simp add: buffer_inv_def)
  from assms True have len: "length (recordedChunks w) = 1000" by (simp add: buffer_inv_def)
  have sub: "set ?b \<subseteq> insert c (set (chunks (mm w)))"
    using assms(1) by (auto simp: buffer_inv_def)
  have "set (drop 500 ?b) \<subseteq> set (filter (\<lambda>x. x \<notin> set (take 500 ?b)) (set_add c (chunks (mm w))))"
  proof
    fix x assume x: "x \<in> set (drop 500 ?b)"
    then have "x \<in> set ?b" by (rule in_set_dropD)
    with sub have "x \<in> insert c (set (chunks (mm w)))" by blast
    moreover from d x have "x \<notin> set (take 500 ?b)" by (rule distinct_drop_not_in_take)
    ultimately show "x \<in> set (filter (\<lambda>x. x \<notin> set (take 500 ?b)) (set_add c (chunks (mm w))))"
      by (simp add: set_set_add)
  qed
  moreover have "distinct (drop 500 ?b)" using d by (rule distinct_drop)
  moreover have "length (drop 500 ?b) \<le> 1000" using len by simp
  ultimately show ?thesis using True
    by (simp add: buffer_inv_def recordedChunks_addRecordedChunk chunks_addRecordedChunk)
qed

lemma set_recordedChunks_addRecordedChunk:
  "set (recordedChunks (addRecordedChunk c w)) \<subseteq> insert c (set (recordedChunks w))"
  by (auto simp: recordedChunks_addRecordedChunk dest: in_set_dropD)

lemma buffer_inv_appendAll:
  "buffer_inv w \<Longrightarrow> distinct cs \<Longrightarrow> set cs \<inter> set (recordedChunks w) = {}
     \<Longrightarrow> buffer_inv (appendAll cs w)"
proof (induction cs arbitrary: w)
  case Nil
  then show ?case by simp
next
  case (Cons c cs)
  from Cons.prems have "buffer_inv (addRecordedChunk c w)" by (auto intro: buffer_inv_step)
  moreover from Cons.prems have "distinct cs" by simp
  moreover have "set cs \<inter> set (recordedChunks (addRecordedChunk c w)) = {}"
    using Cons.prems set_recordedChunks_addRecordedChunk [of c w] by auto
  ultimately show ?case using Cons.IH by simp
qed

lemma appendAll_snoc: "appendAll (cs @ [c]) w = addRecordedChunk c (appendAll cs w)"
  by (induction cs arbitrary: w) auto

lemma appendAll_below_threshold:
  "length (recordedChunks w) + length cs \<le> 1000 \<Longrightarrow>
     recordedChunks (appendAll cs w) = recordedChunks w @ cs"
  by (induction cs arbitrary: w) (auto simp: recordedChunks_addRecordedChunk)

text \<open>
  C1: the encoder delivers a new blob with every data event, so the chunks of a sequence
  of appends are pairwise distinct. For every such sequence, starting with an empty
  buffer, consider the last append. Below 1000 buffered chunks it only adds the chunk.
  At 1000 buffered chunks the count exceeds 1000, and the oldest 500 chunks are removed
  from the buffer and are no longer members of the registry. After the append the buffer
  holds at most 1000 chunks, and every chunk of the buffer is a member of the registry.
\<close>

theorem addRecordedChunk_compaction:
  assumes "distinct (cs @ [c])" and "recordedChunks w0 = []"
  shows "(length (recordedChunks (appendAll cs w0)) < 1000 \<longrightarrow>
            recordedChunks (appendAll (cs @ [c]) w0) = recordedChunks (appendAll cs w0) @ [c])
       \<and> (length (recordedChunks (appendAll cs w0)) = 1000 \<longrightarrow>
            recordedChunks (appendAll (cs @ [c]) w0)
              = drop 500 (recordedChunks (appendAll cs w0) @ [c])
          \<and> set (take 500 (recordedChunks (appendAll cs w0)))
              \<inter> set (chunks (mm (appendAll (cs @ [c]) w0))) = {})
       \<and> length (recordedChunks (appendAll (cs @ [c]) w0)) \<le> 1000
       \<and> set (recordedChunks (appendAll (cs @ [c]) w0))
           \<subseteq> set (chunks (mm (appendAll (cs @ [c]) w0)))"
proof -
  let ?w = "appendAll cs w0"
  from assms(2) have "buffer_inv w0" by (simp add: buffer_inv_def)
  with assms have "buffer_inv (appendAll (cs @ [c]) w0)"
    by (intro buffer_inv_appendAll) simp_all
  then have inv: "length (recordedChunks (appendAll (cs @ [c]) w0)) \<le> 1000"
      "set (recordedChunks (appendAll (cs @ [c]) w0)) \<subseteq> set (chunks (mm (appendAll (cs @ [c]) w0)))"
    by (simp_all add: buffer_inv_def)
  have below: "length (recordedChunks ?w) < 1000 \<Longrightarrow>
      recordedChunks (appendAll (cs @ [c]) w0) = recordedChunks ?w @ [c]"
    by (simp add: appendAll_snoc recordedChunks_addRecordedChunk)
  have at1: "length (recordedChunks ?w) = 1000 \<Longrightarrow>
      recordedChunks (appendAll (cs @ [c]) w0) = drop 500 (recordedChunks ?w @ [c])"
    by (simp add: appendAll_snoc recordedChunks_addRecordedChunk)
  have at2: "length (recordedChunks ?w) = 1000 \<Longrightarrow>
      set (take 500 (recordedChunks ?w)) \<inter> set (chunks (mm (appendAll (cs @ [c]) w0))) = {}"
    by (auto simp: appendAll_snoc chunks_addRecordedChunk)
  from inv below at1 at2 show ?thesis by blast
qed

lemma fresh_blobs_distinct: "distinct (map (\<lambda>i. Blob i 8) [0..<n])"
  by (simp add: distinct_map inj_on_def)

text \<open>
  The theorem at 1001 distinct chunks (the compaction runs and leaves 501) and at a single
  chunk (no compaction).
\<close>

theorem addRecordedChunk_compaction_witness:
  "distinct (map (\<lambda>i. Blob i 8) [0..<1000] @ [Blob 1000 8])
   \<and> recordedChunks initialWorld = []
   \<and> length (recordedChunks (appendAll (map (\<lambda>i. Blob i 8) [0..<1000]) initialWorld)) = 1000
   \<and> length (recordedChunks (appendAll (map (\<lambda>i. Blob i 8) [0..<1000] @ [Blob 1000 8]) initialWorld)) = 501
   \<and> Blob 0 8 \<notin> set (chunks (mm (appendAll (map (\<lambda>i. Blob i 8) [0..<1000] @ [Blob 1000 8]) initialWorld)))
   \<and> length (recordedChunks (appendAll [] initialWorld)) < 1000
   \<and> recordedChunks (appendAll ([] @ [Blob 0 8]) initialWorld) = [Blob 0 8]"
proof -
  let ?cs = "map (\<lambda>i. Blob i 8) [0..<1000]"
  have e: "recordedChunks initialWorld = []" by (simp add: initialWorld_def)
  have d: "distinct (?cs @ [Blob 1000 8])"
    by (auto simp: fresh_blobs_distinct simp del: upt_rec_numeral)
  have b: "recordedChunks (appendAll ?cs initialWorld) = ?cs"
    using appendAll_below_threshold [of initialWorld ?cs] e by (simp del: upt_rec_numeral)
  have l: "length (recordedChunks (appendAll ?cs initialWorld)) = 1000"
    by (simp add: b del: upt_rec_numeral)
  have m: "Blob 0 8 \<in> set (take 500 ?cs)"
    by (simp add: take_map del: upt_rec_numeral)
  from addRecordedChunk_compaction [OF d e] l
  have big: "recordedChunks (appendAll (?cs @ [Blob 1000 8]) initialWorld)
               = drop 500 (recordedChunks (appendAll ?cs initialWorld) @ [Blob 1000 8])"
    and gone: "set (take 500 (recordedChunks (appendAll ?cs initialWorld)))
                \<inter> set (chunks (mm (appendAll (?cs @ [Blob 1000 8]) initialWorld))) = {}"
    by blast+
  from big have big': "length (recordedChunks (appendAll (?cs @ [Blob 1000 8]) initialWorld)) = 501"
    by (simp add: b del: upt_rec_numeral)
  from gone m have gone': "Blob 0 8 \<notin> set (chunks (mm (appendAll (?cs @ [Blob 1000 8]) initialWorld)))"
    unfolding b by blast
  have d0: "distinct ([] @ [Blob 0 8])" by simp
  from addRecordedChunk_compaction [OF d0 e]
  have small: "recordedChunks (appendAll ([] @ [Blob 0 8]) initialWorld) = [Blob 0 8]"
    using e by simp
  from d e l big' gone' small show ?thesis by (simp del: upt_rec_numeral)
qed

section \<open>The filter expression\<close>

lemma is_white_space_space: "is_white_space CHR '' ''"
  by (simp add: is_white_space_def)

lemma trim_append_space: "trim (s @ '' '') = trim s"
proof (cases "\<forall>c\<in>set s. is_white_space c")
  case True
  then have a: "dropWhile is_white_space s = []" by simp
  from True have b: "dropWhile is_white_space (s @ '' '') = []"
    by (simp add: is_white_space_space)
  show ?thesis by (simp add: trim_def a b)
next
  case False
  then have "dropWhile is_white_space (s @ '' '') = dropWhile is_white_space s @ '' ''"
    by (auto simp: dropWhile_append)
  then show ?thesis by (simp add: trim_def is_white_space_space)
qed

lemma trim_no_edges:
  assumes "s \<noteq> []" "\<not> is_white_space (hd s)" "\<not> is_white_space (last s)"
  shows "trim s = s"
proof -
  from assms(1,2) have a: "dropWhile is_white_space s = s"
    by (cases s) auto
  from assms(1,3) have "dropWhile is_white_space (rev s) = rev s"
    by (cases "rev s") (auto simp: last_rev [symmetric])
  with a show ?thesis by (simp add: trim_def)
qed

lemma trim_term:
  "trim (c # mid @ ''%) '') = c # mid @ ''%)''" if "\<not> is_white_space c"
proof -
  have "trim ((c # mid @ ''%)'') @ '' '') = trim (c # mid @ ''%)'')"
    by (rule trim_append_space)
  also have "\<dots> = c # mid @ ''%)''"
    using that by (intro trim_no_edges) (simp_all add: is_white_space_def)
  finally show ?thesis by simp
qed

lemma applyFilters_brightness:
  "filter_st r = ''none'' \<Longrightarrow> brightness r \<noteq> 100 \<Longrightarrow> contrast r = 100 \<Longrightarrow> saturation r = 100
   \<Longrightarrow> applyFilters r = ''brightness('' @ number_toString (brightness r) @ ''%)''"
  using trim_term [of "CHR ''b''" "''rightness('' @ number_toString (brightness r)"]
  by (simp add: applyFilters_def is_white_space_def)

lemma applyFilters_contrast:
  "filter_st r = ''none'' \<Longrightarrow> brightness r = 100 \<Longrightarrow> contrast r \<noteq> 100 \<Longrightarrow> saturation r = 100
   \<Longrightarrow> applyFilters r = ''contrast('' @ number_toString (contrast r) @ ''%)''"
  using trim_term [of "CHR ''c''" "''ontrast('' @ number_toString (contrast r)"]
  by (simp add: applyFilters_def is_white_space_def)

lemma applyFilters_saturation:
  "filter_st r = ''none'' \<Longrightarrow> brightness r = 100 \<Longrightarrow> contrast r = 100 \<Longrightarrow> saturation r \<noteq> 100
   \<Longrightarrow> applyFilters r = ''saturate('' @ number_toString (saturation r) @ ''%)''"
  using trim_term [of "CHR ''s''" "''aturate('' @ number_toString (saturation r)"]
  by (simp add: applyFilters_def is_white_space_def)

lemma applyFilters_default:
  "filter_st r = ''none'' \<Longrightarrow> brightness r = 100 \<Longrightarrow> contrast r = 100 \<Longrightarrow> saturation r = 100
   \<Longrightarrow> applyFilters r = ''none''"
  by (simp add: applyFilters_def trim_def)

lemma applyFilters_filter:
  "filter_st r \<noteq> ''none'' \<Longrightarrow> brightness r = 100 \<Longrightarrow> contrast r = 100 \<Longrightarrow> saturation r = 100
   \<Longrightarrow> applyFilters r = (if trim (filter_st r) = '''' then ''none'' else trim (filter_st r))"
  by (simp add: applyFilters_def trim_append_space)

lemma applyFilters_option:
  "filter_st r \<in> set filterOptions \<Longrightarrow> filter_st r \<noteq> ''none'' \<Longrightarrow> brightness r = 100
   \<Longrightarrow> contrast r = 100 \<Longrightarrow> saturation r = 100 \<Longrightarrow> applyFilters r = filter_st r"
  using applyFilters_filter [of r]
  by (auto simp: filterOptions_def trim_def is_white_space_def)

text \<open>
  C2: \<open>applyFilters\<close> returns \<open>none\<close> when brightness, contrast and saturation are 100
  and the named filter is \<open>none\<close>. When exactly one of the four settings is not at its
  default, it returns exactly that setting's term: \<open>brightness(b%)\<close>, \<open>contrast(c%)\<close> or
  \<open>saturate(s%)\<close> with the number as the template literal prints it, or the named
  filter itself.
\<close>

theorem applyFilters_single_setting:
  "(filter_st r = ''none'' \<and> brightness r = 100 \<and> contrast r = 100 \<and> saturation r = 100
      \<longrightarrow> applyFilters r = ''none'')
   \<and> (filter_st r = ''none'' \<and> brightness r \<noteq> 100 \<and> \<bar>brightness r\<bar> < 10 ^ 21
        \<and> contrast r = 100 \<and> saturation r = 100
      \<longrightarrow> applyFilters r = ''brightness('' @ number_toString (brightness r) @ ''%)'')
   \<and> (filter_st r = ''none'' \<and> brightness r = 100 \<and> contrast r \<noteq> 100 \<and> \<bar>contrast r\<bar> < 10 ^ 21
        \<and> saturation r = 100
      \<longrightarrow> applyFilters r = ''contrast('' @ number_toString (contrast r) @ ''%)'')
   \<and> (filter_st r = ''none'' \<and> brightness r = 100 \<and> contrast r = 100
        \<and> saturation r \<noteq> 100 \<and> \<bar>saturation r\<bar> < 10 ^ 21
      \<longrightarrow> applyFilters r = ''saturate('' @ number_toString (saturation r) @ ''%)'')
   \<and> (filter_st r \<in> set filterOptions \<and> filter_st r \<noteq> ''none''
        \<and> brightness r = 100 \<and> contrast r = 100 \<and> saturation r = 100
      \<longrightarrow> applyFilters r = filter_st r)"
  using applyFilters_default [of r] applyFilters_brightness [of r] applyFilters_contrast [of r]
    applyFilters_saturation [of r] applyFilters_option [of r]
  by blast

text \<open>
  The cases at concrete settings: the defaults; brightness 150, contrast 50 and
  saturation 0, each alone; and each of the five named filters alone.
\<close>

theorem applyFilters_single_setting_witness:
  "applyFilters initialRender = ''none''
   \<and> applyFilters (initialRender\<lparr>brightness := 150\<rparr>) = ''brightness(150%)''
   \<and> applyFilters (initialRender\<lparr>contrast := 50\<rparr>) = ''contrast(50%)''
   \<and> applyFilters (initialRender\<lparr>saturation := 0\<rparr>) = ''saturate(0%)''
   \<and> applyFilters (initialRender\<lparr>filter_st := ''grayscale(100%)''\<rparr>) = ''grayscale(100%)''
   \<and> applyFilters (initialRender\<lparr>filter_st := ''sepia(100%)''\<rparr>) = ''sepia(100%)''
   \<and> applyFilters (initialRender\<lparr>filter_st := ''invert(100%)''\<rparr>) = ''invert(100%)''
   \<and> applyFilters (initialRender\<lparr>filter_st := ''blur(2px)''\<rparr>) = ''blur(2px)''
   \<and> applyFilters (initialRender\<lparr>filter_st := ''hue-rotate(90deg)''\<rparr>) = ''hue-rotate(90deg)''"
  using applyFilters_single_setting [of initialRender]
    applyFilters_single_setting [of "initialRender\<lparr>brightness := 150\<rparr>"]
    applyFilters_single_setting [of "initialRender\<lparr>contrast := 50\<rparr>"]
    applyFilters_single_setting [of "initialRender\<lparr>saturation := 0\<rparr>"]
    applyFilters_single_setting [of "initialRender\<lparr>filter_st := ''grayscale(100%)''\<rparr>"]
    applyFilters_single_setting [of "initialRender\<lparr>filter_st := ''sepia(100%)''\<rparr>"]
    applyFilters_single_setting [of "initialRender\<lparr>filter_st := ''invert(100%)''\<rparr>"]
    applyFilters_single_setting [of "initialRender\<lparr>filter_st := ''blur(2px)''\<rparr>"]
    applyFilters_single_setting [of "initialRender\<lparr>filter_st := ''hue-rotate(90deg)''\<rparr>"]
  by (simp add: initialRender_def number_toString_def digits.simps filterOptions_def)

section \<open>Failure of the device acquisition\<close>

lemmas setter_defs = setIsRecording_def setVideoUrl_def setFacingMode_def setIsPreviewing_def
  setIsLoading_def setError_def setRecordingTime_def setVideoSize_def

lemma getUserMedia_fail:
  "getUserMedia c (Some e) w = (Inl e, emit (GetUserMedia c) w)"
  by (simp add: getUserMedia_def)

lemma startPreview_try_fail:
  "gumAnswer a = Some err \<Longrightarrow>
   startPreview_try r a w = (Some err, emit (GetUserMedia (getVideoConstraints r)) (setError None (setIsLoading True w)))"
  by (simp add: startPreview_try_def getUserMedia_fail)

lemma startPreview_fail:
  "gumAnswer a = Some err \<Longrightarrow>
   startPreview r a w = setIsLoading False (startPreview_catch r a err
      (emit (GetUserMedia (getVideoConstraints r)) (setError None (setIsLoading True w))))"
  by (simp add: startPreview_def startPreview_try_fail)

lemma log_setters [simp]:
  "log (setIsLoading b w) = log w" "log (setError e w) = log w"
  "log (setIsPreviewing b w) = log w" "log (setIsRecording b w) = log w"
  "log (setFacingMode m w) = log w" "log (setRecordingTime t w) = log w"
  "log (setVideoUrl u w) = log w" "log (setVideoSize n w) = log w"
  by (simp_all add: setter_defs)

lemma timeouts_setters [simp]:
  "timeouts (setIsLoading b w) = timeouts w" "timeouts (setError e w) = timeouts w"
  "timeouts (setIsPreviewing b w) = timeouts w" "timeouts (setIsRecording b w) = timeouts w"
  "timeouts (setFacingMode m w) = timeouts w" "timeouts (setRecordingTime t w) = timeouts w"
  "timeouts (setVideoUrl u w) = timeouts w" "timeouts (setVideoSize n w) = timeouts w"
  by (simp_all add: setter_defs)

lemma emit_simps [simp]:
  "log (emit e w) = log w @ [e]" "timeouts (emit e w) = timeouts w" "state (emit e w) = state w"
  by (simp_all add: emit_def)

lemma error_setters [simp]:
  "error (state (setError e w)) = e" "error (state (setIsLoading b w)) = error (state w)"
  "error (state (setIsPreviewing b w)) = error (state w)"
  by (simp_all add: setter_defs)

lemma setTimeout_simps [simp]:
  "log (setTimeout cb ms w) = log w @ [SetTimeout ms]"
  "timeouts (setTimeout cb ms w) = timeouts w @ [(ms, cb)]"
  "state (setTimeout cb ms w) = state w"
  by (simp_all add: setTimeout_def)

lemma retryPreview_once:
  "acquisitions (retryPreview r a v) = Suc (acquisitions v) \<and> timeouts (retryPreview r a v) = timeouts v"
  by (simp add: retryPreview_def getUserMedia_def fresh_def acquisitions_def Let_def
      split: option.splits)

lemma retryPreview_error:
  "gumAnswer a = Some e \<or> gumAnswer a = None \<and> playAnswer a = Some e \<Longrightarrow>
   error (state (retryPreview r a v))
     = Some (''Please grant camera and microphone permissions and try again. Error: '' @ message e)"
  "gumAnswer a = None \<Longrightarrow> playAnswer a = None \<Longrightarrow> error (state (retryPreview r a v)) = None"
  by (auto simp: retryPreview_def getUserMedia_def fresh_def emit_def setter_defs Let_def)

lemma startPreview_denied:
  assumes "gumAnswer a = Some err" "permissionDenial err"
    "cameraAnswer a = Inr cam" "microphoneAnswer a = Inr mic" "cam = Denied \<or> mic = Denied"
  shows "error (state (startPreview r a w)) = Some ''Camera and microphone access is required. Please enable permissions in your browser settings and try again.''"
   and "timeouts (startPreview r a w) = timeouts w"
   and "acquisitions (startPreview r a w) = Suc (acquisitions w)"
  using assms by (auto simp add: startPreview_fail startPreview_catch_def acquisitions_def permissionDenial_def Let_def)

lemma startPreview_retry:
  assumes "gumAnswer a = Some err" "permissionDenial err"
    "cameraAnswer a = Inr cam" "microphoneAnswer a = Inr mic" "cam \<noteq> Denied" "mic \<noteq> Denied"
  shows "error (state (startPreview r a w)) = None"
   and "timeouts (startPreview r a w) = timeouts w @ [(1000, RetryPreview r)]"
   and "acquisitions (startPreview r a w) = Suc (acquisitions w)"
  using assms by (auto simp add: startPreview_fail startPreview_catch_def acquisitions_def permissionDenial_def Let_def)

lemma startPreview_query_failed:
  assumes "gumAnswer a = Some err" "permissionDenial err"
    "cameraAnswer a = Inl e1 \<or> (cameraAnswer a = Inr cam \<and> microphoneAnswer a = Inl e2)"
  shows "error (state (startPreview r a w)) = Some ''Unable to check permissions. Please ensure camera and microphone access is allowed and try again.''"
   and "timeouts (startPreview r a w) = timeouts w"
   and "acquisitions (startPreview r a w) = Suc (acquisitions w)"
  using assms by (auto simp add: startPreview_fail startPreview_catch_def acquisitions_def permissionDenial_def Let_def)

lemma startPreview_other:
  assumes "gumAnswer a = Some err" "\<not> permissionDenial err"
  shows "error (state (startPreview r a w)) = Some (''Failed to start preview: '' @ message err)"
   and "timeouts (startPreview r a w) = timeouts w"
   and "acquisitions (startPreview r a w) = Suc (acquisitions w)"
  using assms by (auto simp add: startPreview_fail startPreview_catch_def acquisitions_def permissionDenial_def Let_def)

text \<open>
  C3, as stated, fails when the permission query itself throws: the acquisition failed
  with a permission denial and neither permission state is denied (the camera query
  returned none), yet nothing is scheduled; an error is shown after the one attempt.
\<close>

theorem startPreview_query_throws_counterexample:
  "permissionDenial (Error ''NotAllowedError'' ''Permission denied'')
   \<and> cameraAnswer (allSucceed\<lparr>gumAnswer := Some (Error ''NotAllowedError'' ''Permission denied''),
        cameraAnswer := Inl (Error ''TypeError'' ''camera is not a permission name'')\<rparr>) \<noteq> Inr Denied
   \<and> microphoneAnswer (allSucceed\<lparr>gumAnswer := Some (Error ''NotAllowedError'' ''Permission denied''),
        cameraAnswer := Inl (Error ''TypeError'' ''camera is not a permission name'')\<rparr>) \<noteq> Inr Denied
   \<and> timeouts (startPreview initialRender
        (allSucceed\<lparr>gumAnswer := Some (Error ''NotAllowedError'' ''Permission denied''),
           cameraAnswer := Inl (Error ''TypeError'' ''camera is not a permission name'')\<rparr>)
        initialWorld) = []
   \<and> acquisitions (startPreview initialRender
        (allSucceed\<lparr>gumAnswer := Some (Error ''NotAllowedError'' ''Permission denied''),
           cameraAnswer := Inl (Error ''TypeError'' ''camera is not a permission name'')\<rparr>)
        initialWorld) = 1"
  by (simp add: startPreview_fail startPreview_catch_def acquisitions_def permissionDenial_def
      allSucceed_def initialWorld_def)

text \<open>
  C3 (amended): when the device acquisition of \<open>startPreview\<close> fails with error \<open>err\<close>,
  exactly one acquisition has been requested when \<open>startPreview\<close> returns, and
  \<^item> if \<open>err\<close> is a permission denial and both permission queries return a state, one of
    them \<open>denied\<close>: a terminal error message is set and nothing is scheduled;
  \<^item> if \<open>err\<close> is a permission denial and both queries return a state, neither \<open>denied\<close>:
    no error is set and one retry is scheduled after 1000 ms; the retry requests exactly
    one acquisition and schedules nothing, whatever the host answers; a retry that fails
    (in the acquisition or in starting the playback) sets an error message that carries
    the failure's message, and a retry that succeeds leaves no error;
  \<^item> if \<open>err\<close> is a permission denial and a permission query throws: an error message is
    set and nothing is scheduled;
  \<^item> for every other error kind: the error's message is set and nothing is scheduled.
\<close>

theorem startPreview_failure_handling:
  assumes "gumAnswer a = Some err"
  shows "acquisitions (startPreview r a w) = Suc (acquisitions w)
    \<and> (permissionDenial err
         \<and> (\<exists>cam mic. cameraAnswer a = Inr cam \<and> microphoneAnswer a = Inr mic
               \<and> (cam = Denied \<or> mic = Denied))
       \<longrightarrow> error (state (startPreview r a w)) = Some ''Camera and microphone access is required. Please enable permissions in your browser settings and try again.''
         \<and> timeouts (startPreview r a w) = timeouts w)
    \<and> (permissionDenial err
         \<and> (\<exists>cam mic. cameraAnswer a = Inr cam \<and> microphoneAnswer a = Inr mic
               \<and> cam \<noteq> Denied \<and> mic \<noteq> Denied)
       \<longrightarrow> error (state (startPreview r a w)) = None
         \<and> timeouts (startPreview r a w) = timeouts w @ [(1000, RetryPreview r)]
         \<and> (\<forall>a' v. acquisitions (runCallback (RetryPreview r) a' v) = Suc (acquisitions v)
                  \<and> timeouts (runCallback (RetryPreview r) a' v) = timeouts v)
         \<and> (\<forall>a' v e. gumAnswer a' = Some e \<or> gumAnswer a' = None \<and> playAnswer a' = Some e
                  \<longrightarrow> error (state (runCallback (RetryPreview r) a' v))
                        = Some (''Please grant camera and microphone permissions and try again. Error: '' @ message e))
         \<and> (\<forall>a' v. gumAnswer a' = None \<and> playAnswer a' = None
                  \<longrightarrow> error (state (runCallback (RetryPreview r) a' v)) = None))
    \<and> (permissionDenial err \<and> (isl (cameraAnswer a) \<or> isl (microphoneAnswer a))
       \<longrightarrow> error (state (startPreview r a w)) = Some ''Unable to check permissions. Please ensure camera and microphone access is allowed and try again.''
         \<and> timeouts (startPreview r a w) = timeouts w)
    \<and> (\<not> permissionDenial err
       \<longrightarrow> error (state (startPreview r a w)) = Some (''Failed to start preview: '' @ message err)
         \<and> timeouts (startPreview r a w) = timeouts w)"
proof -
  have n: "acquisitions (startPreview r a w) = Suc (acquisitions w)"
    using assms
    by (simp add: startPreview_fail startPreview_catch_def acquisitions_def Let_def
        split: sum.splits)
  have q: "permissionDenial err \<Longrightarrow> isl (cameraAnswer a) \<or> isl (microphoneAnswer a) \<Longrightarrow>
      error (state (startPreview r a w)) = Some ''Unable to check permissions. Please ensure camera and microphone access is allowed and try again.''
      \<and> timeouts (startPreview r a w) = timeouts w"
    using startPreview_query_failed [OF assms, of "projl (cameraAnswer a)" "projr (cameraAnswer a)"
        "projl (microphoneAnswer a)" r w]
    by (cases "cameraAnswer a"; cases "microphoneAnswer a") auto
  have c: "\<forall>a' v. acquisitions (runCallback (RetryPreview r) a' v) = Suc (acquisitions v)
                  \<and> timeouts (runCallback (RetryPreview r) a' v) = timeouts v"
    by (simp add: runCallback_def retryPreview_once)
  have f: "\<forall>a' v e. gumAnswer a' = Some e \<or> gumAnswer a' = None \<and> playAnswer a' = Some e
                  \<longrightarrow> error (state (runCallback (RetryPreview r) a' v))
                        = Some (''Please grant camera and microphone permissions and try again. Error: '' @ message e)"
    using retryPreview_error(1) by (simp add: runCallback_def)
  have g: "\<forall>a' v. gumAnswer a' = None \<and> playAnswer a' = None
                  \<longrightarrow> error (state (runCallback (RetryPreview r) a' v)) = None"
    using retryPreview_error(2) by (simp add: runCallback_def)
  have d: "permissionDenial err
         \<and> (\<exists>cam mic. cameraAnswer a = Inr cam \<and> microphoneAnswer a = Inr mic
               \<and> (cam = Denied \<or> mic = Denied))
       \<longrightarrow> error (state (startPreview r a w)) = Some ''Camera and microphone access is required. Please enable permissions in your browser settings and try again.''
         \<and> timeouts (startPreview r a w) = timeouts w"
    using startPreview_denied(1,2) [OF assms, of _ _ r w] by auto
  have t: "permissionDenial err
         \<and> (\<exists>cam mic. cameraAnswer a = Inr cam \<and> microphoneAnswer a = Inr mic
               \<and> cam \<noteq> Denied \<and> mic \<noteq> Denied)
       \<longrightarrow> error (state (startPreview r a w)) = None
         \<and> timeouts (startPreview r a w) = timeouts w @ [(1000, RetryPreview r)]"
    using startPreview_retry(1,2) [OF assms, of _ _ r w] by auto
  have o: "\<not> permissionDenial err
       \<longrightarrow> error (state (startPreview r a w)) = Some (''Failed to start preview: '' @ message err)
         \<and> timeouts (startPreview r a w) = timeouts w"
    using startPreview_other(1,2) [OF assms, of r w] by auto
  from n d t c f g q o show ?thesis by (intro conjI impI) (simp_all only: simp_thms)
qed

text \<open>
  The four cases at a host that rejects the acquisition: camera denied; camera and
  microphone at \<open>prompt\<close>, with a retry that succeeds and a retry that is rejected
  again; the camera query throwing; and a missing device.
\<close>

theorem startPreview_failure_handling_witness:
  "timeouts (startPreview initialRender
      (allSucceed\<lparr>gumAnswer := Some (Error ''NotAllowedError'' ''Permission denied''),
         cameraAnswer := Inr Denied\<rparr>) initialWorld) = []
   \<and> error (state (startPreview initialRender
      (allSucceed\<lparr>gumAnswer := Some (Error ''NotAllowedError'' ''Permission denied''),
         cameraAnswer := Inr Denied\<rparr>) initialWorld))
      = Some ''Camera and microphone access is required. Please enable permissions in your browser settings and try again.''
   \<and> timeouts (startPreview initialRender
      (allSucceed\<lparr>gumAnswer := Some (Error ''NotAllowedError'' ''Permission denied''),
         cameraAnswer := Inr Prompt, microphoneAnswer := Inr Prompt\<rparr>) initialWorld)
      = [(1000, RetryPreview initialRender)]
   \<and> acquisitions (runCallback (RetryPreview initialRender) allSucceed initialWorld) = 1
   \<and> error (state (runCallback (RetryPreview initialRender) allSucceed initialWorld)) = None
   \<and> error (state (runCallback (RetryPreview initialRender)
        (allSucceed\<lparr>gumAnswer := Some (Error ''NotAllowedError'' ''Permission denied'')\<rparr>)
        initialWorld))
      = Some ''Please grant camera and microphone permissions and try again. Error: Permission denied''
   \<and> timeouts (runCallback (RetryPreview initialRender)
        (allSucceed\<lparr>gumAnswer := Some (Error ''NotAllowedError'' ''Permission denied'')\<rparr>)
        initialWorld) = []
   \<and> acquisitions (runCallback (RetryPreview initialRender)
        (allSucceed\<lparr>gumAnswer := Some (Error ''NotAllowedError'' ''Permission denied'')\<rparr>)
        initialWorld) = 1
   \<and> error (state (startPreview initialRender
      (allSucceed\<lparr>gumAnswer := Some (Error ''NotAllowedError'' ''Permission denied''),
         cameraAnswer := Inl (Error ''TypeError'' ''camera is not a permission name'')\<rparr>) initialWorld))
      = Some ''Unable to check permissions. Please ensure camera and microphone access is allowed and try again.''
   \<and> error (state (startPreview initialRender
      (allSucceed\<lparr>gumAnswer := Some (Error ''NotFoundError'' ''Requested device not found'')\<rparr>)
      initialWorld))
      = Some ''Failed to start preview: Requested device not found''
   \<and> acquisitions (startPreview initialRender
      (allSucceed\<lparr>gumAnswer := Some (Error ''NotFoundError'' ''Requested device not found'')\<rparr>)
      initialWorld) = 1"
proof -
  let ?denied = "Error ''NotAllowedError'' ''Permission denied''"
  let ?again = "allSucceed\<lparr>gumAnswer := Some ?denied\<rparr>"
  have h: "gumAnswer (allSucceed\<lparr>gumAnswer := Some ?denied, cameraAnswer := Inr Prompt,
             microphoneAnswer := Inr Prompt\<rparr>) = Some ?denied"
    by simp
  have p: "permissionDenial ?denied
     \<and> (\<exists>cam mic. cameraAnswer (allSucceed\<lparr>gumAnswer := Some ?denied, cameraAnswer := Inr Prompt,
             microphoneAnswer := Inr Prompt\<rparr>) = Inr cam
           \<and> microphoneAnswer (allSucceed\<lparr>gumAnswer := Some ?denied, cameraAnswer := Inr Prompt,
             microphoneAnswer := Inr Prompt\<rparr>) = Inr mic \<and> cam \<noteq> Denied \<and> mic \<noteq> Denied)"
    by (simp add: permissionDenial_def)
  from startPreview_failure_handling [OF h, of initialRender initialWorld] p
  have retry: "timeouts (startPreview initialRender
        (allSucceed\<lparr>gumAnswer := Some ?denied, cameraAnswer := Inr Prompt,
             microphoneAnswer := Inr Prompt\<rparr>) initialWorld)
        = timeouts initialWorld @ [(1000, RetryPreview initialRender)]"
    and once: "\<forall>a' v. acquisitions (runCallback (RetryPreview initialRender) a' v) = Suc (acquisitions v)
                  \<and> timeouts (runCallback (RetryPreview initialRender) a' v) = timeouts v"
    and failing: "\<forall>a' v e. gumAnswer a' = Some e \<or> gumAnswer a' = None \<and> playAnswer a' = Some e
                  \<longrightarrow> error (state (runCallback (RetryPreview initialRender) a' v))
                        = Some (''Please grant camera and microphone permissions and try again. Error: '' @ message e)"
    and succeeding: "\<forall>a' v. gumAnswer a' = None \<and> playAnswer a' = None
                  \<longrightarrow> error (state (runCallback (RetryPreview initialRender) a' v)) = None"
    by blast+
  have i: "timeouts initialWorld = []" "acquisitions initialWorld = 0"
    by (simp_all add: initialWorld_def acquisitions_def)
  have r1: "acquisitions (runCallback (RetryPreview initialRender) allSucceed initialWorld) = 1"
    "acquisitions (runCallback (RetryPreview initialRender) ?again initialWorld) = 1"
    "timeouts (runCallback (RetryPreview initialRender) ?again initialWorld) = []"
    using once i by simp_all
  have "gumAnswer allSucceed = None \<and> playAnswer allSucceed = None"
    by (simp add: allSucceed_def)
  with succeeding
  have r2: "error (state (runCallback (RetryPreview initialRender) allSucceed initialWorld)) = None"
    by blast
  have "gumAnswer ?again = Some ?denied" by simp
  with failing
  have "error (state (runCallback (RetryPreview initialRender) ?again initialWorld))
      = Some (''Please grant camera and microphone permissions and try again. Error: '' @ message ?denied)"
    by blast
  then have r3: "error (state (runCallback (RetryPreview initialRender) ?again initialWorld))
      = Some ''Please grant camera and microphone permissions and try again. Error: Permission denied''"
    by simp
  show ?thesis
    using r1 r2 r3 retry i
      startPreview_failure_handling [of "allSucceed\<lparr>gumAnswer := Some ?denied,
         cameraAnswer := Inr Denied\<rparr>" ?denied initialRender initialWorld]
      startPreview_failure_handling [of "allSucceed\<lparr>gumAnswer := Some ?denied,
         cameraAnswer := Inl (Error ''TypeError'' ''camera is not a permission name'')\<rparr>"
         ?denied initialRender initialWorld]
      startPreview_failure_handling [of "allSucceed\<lparr>gumAnswer := Some (Error ''NotFoundError'' ''Requested device not found'')\<rparr>"
         "Error ''NotFoundError'' ''Requested device not found''" initialRender initialWorld]
    by (simp add: allSucceed_def permissionDenial_def)
qed

section \<open>Holding device streams\<close>

lemma startPreview_acquires:
  assumes "gumAnswer a = None"
  shows "liveStreams (startPreview r a w) = liveStreams w @ [Suc (nextId w)]"
    and "videoStreamRef (startPreview r a w) = Some (Suc (nextId w))"
  using assms
  by (auto simp: startPreview_def startPreview_try_def startPreview_catch_def getUserMedia_def
      fresh_def emit_def setter_defs setTimeout_def Let_def split: option.splits sum.splits)

lemma startRecording_reuses:
  assumes "isPreviewing r" "videoStreamRef w = Some s"
  shows "liveStreams (startRecording r a w) = liveStreams w"
    and "videoStreamRef (startRecording r a w) = Some s"
    and "acquisitions (startRecording r a w) = acquisitions w"
  using assms
  by (auto simp: startRecording_def startRecording_try_def setInterval_def setRecorderState_def
      fresh_def emit_def setter_defs acquisitions_def Let_def split: option.splits)

lemma startRecording_acquires:
  assumes "\<not> isPreviewing r" "gumAnswer a = None"
  shows "liveStreams (startRecording r a w) = liveStreams w @ [Suc (nextId w)]"
    and "videoStreamRef (startRecording r a w) = Some (Suc (nextId w))"
  using assms
  by (auto simp: startRecording_def startRecording_try_def setInterval_def setRecorderState_def
      getUserMedia_def fresh_def emit_def setter_defs Let_def split: option.splits)

lemma nextId_startPreview_ok:
  "gumAnswer a = None \<Longrightarrow> nextId (startPreview r a w) = Suc (nextId w)"
  by (auto simp: startPreview_def startPreview_try_def startPreview_catch_def getUserMedia_def
      fresh_def emit_def setter_defs setTimeout_def Let_def split: option.splits sum.splits)

lemma nextId_startRecording_ok:
  "\<not> isPreviewing r \<Longrightarrow> gumAnswer a = None \<Longrightarrow> recorderAnswer a = None \<Longrightarrow> startAnswer a = None
   \<Longrightarrow> nextId (startRecording r a w) = Suc (Suc (nextId w))"
  by (auto simp: startRecording_def startRecording_try_def setInterval_def setRecorderState_def
      getUserMedia_def fresh_def emit_def setter_defs Let_def split: option.splits)

lemma state_startPreview_ok:
  "gumAnswer a = None \<Longrightarrow> playAnswer a = None \<Longrightarrow>
   state (startPreview r a w) = (state w)\<lparr>isLoading := False, error := None, isPreviewing := True\<rparr>"
  by (simp add: startPreview_def startPreview_try_def getUserMedia_def
      fresh_def emit_def setter_defs Let_def)

lemma state_startRecording_ok:
  "\<not> isPreviewing r \<Longrightarrow> gumAnswer a = None \<Longrightarrow> recorderAnswer a = None \<Longrightarrow> startAnswer a = None \<Longrightarrow>
   state (startRecording r a w)
     = (state w)\<lparr>isLoading := False, error := None, recordingTime := 0, isRecording := True\<rparr>"
  by (simp add: startRecording_def startRecording_try_def setInterval_def setRecorderState_def
      getUserMedia_def fresh_def emit_def setter_defs Let_def)

lemma switchCamera_previewing:
  "isPreviewing r \<Longrightarrow> switchCamera r w =
     setTimeout (RestartPreview r) 100
       (stopPreview (setFacingMode (if facingMode r = ''user'' then ''environment'' else ''user'') w))"
  by (simp add: switchCamera_def)

lemma stopPreview_fields:
  "liveStreams (stopPreview w) = (case videoStreamRef w of Some s \<Rightarrow> removeAll s (liveStreams w) | None \<Rightarrow> liveStreams w)"
  "videoStreamRef (stopPreview w) = videoStreamRef w"
  "nextId (stopPreview w) = nextId w"
  "timeouts (stopPreview w) = timeouts w"
  "state (stopPreview w) = (state w)\<lparr>isPreviewing := False\<rparr>"
  by (simp_all add: stopPreview_def stopTracks_def cancelAnimationFrame_def emit_def setter_defs
      Let_def split: option.splits)

lemma setTimeout_fields [simp]:
  "liveStreams (setTimeout cb ms w) = liveStreams w"
  "videoStreamRef (setTimeout cb ms w) = videoStreamRef w"
  "nextId (setTimeout cb ms w) = nextId w"
  by (simp_all add: setTimeout_def emit_def)

lemma setFacingMode_fields [simp]:
  "liveStreams (setFacingMode m w) = liveStreams w"
  "videoStreamRef (setFacingMode m w) = videoStreamRef w"
  "nextId (setFacingMode m w) = nextId w"
  "state (setFacingMode m w) = (state w)\<lparr>facingMode := m\<rparr>"
  by (simp_all add: setter_defs)

lemma fireTimeout_RestartPreview:
  "timeouts w = (ms, RestartPreview r) # rest \<Longrightarrow>
   fireTimeout a w = startPreview r a (w\<lparr>timeouts := rest\<rparr>)"
  by (simp add: fireTimeout_def runCallback_def)

lemma timeouts_startPreview_ok:
  "gumAnswer a = None \<Longrightarrow> playAnswer a = None \<Longrightarrow> timeouts (startPreview r a w) = timeouts w"
  by (simp add: startPreview_def startPreview_try_def getUserMedia_def
      fresh_def emit_def setter_defs Let_def)

text \<open>
  C4 asks that starting a session twice without stopping the first leaves at most one
  acquired stream live. \<open>startRecording\<close> reuses the stream of a running preview
  (\<open>startRecording_reuses\<close>), but \<open>startPreview\<close> always acquires, and \<open>startRecording\<close>
  acquires whenever the component is not previewing; both overwrite \<open>videoStreamRef\<close>
  and stop nothing (\<open>startPreview_acquires\<close>, \<open>startRecording_acquires\<close>). The code at
  three inputs, on a host where every call succeeds:
  \<^item> \<open>startPreview\<close> twice: streams 1 and 2 are live, and the ref holds only 2;
  \<^item> \<open>startRecording\<close> twice while not previewing: streams 1 and 3 are live;
  \<^item> through the buttons: Start Preview, then Switch Camera (which stops stream 1 and
    schedules a restart after 100 ms), then Start Preview, which is offered again at
    once, then the scheduled restart fires: streams 2 and 3 are live.
\<close>

theorem double_start_two_live_streams:
  "liveStreams (startPreview (state (startPreview initialRender allSucceed initialWorld)) allSucceed
        (startPreview initialRender allSucceed initialWorld)) = [1, 2]
   \<and> videoStreamRef (startPreview (state (startPreview initialRender allSucceed initialWorld)) allSucceed
        (startPreview initialRender allSucceed initialWorld)) = Some 2
   \<and> liveStreams (startRecording (state (startRecording initialRender allSucceed initialWorld)) allSucceed
        (startRecording initialRender allSucceed initialWorld)) = [1, 3]
   \<and> switchCameraOffered (state (startPreview initialRender allSucceed initialWorld))
   \<and> startPreviewOffered (state (switchCamera (state (startPreview initialRender allSucceed initialWorld))
         (startPreview initialRender allSucceed initialWorld)))
   \<and> liveStreams (fireTimeout allSucceed
        (startPreview
          (state (switchCamera (state (startPreview initialRender allSucceed initialWorld))
             (startPreview initialRender allSucceed initialWorld)))
          allSucceed
          (switchCamera (state (startPreview initialRender allSucceed initialWorld))
             (startPreview initialRender allSucceed initialWorld)))) = [2, 3]"
proof -
  have g: "gumAnswer allSucceed = None" "recorderAnswer allSucceed = None"
    "startAnswer allSucceed = None" "playAnswer allSucceed = None"
    by (simp_all add: allSucceed_def)
  have n: "nextId initialWorld = 0" "liveStreams initialWorld = []" "timeouts initialWorld = []"
    "state initialWorld = initialRender"
    by (simp_all add: initialWorld_def)
  have i: "\<not> isPreviewing initialRender" "\<not> isRecording initialRender" "\<not> isLoading initialRender"
    by (simp_all add: initialRender_def)
  let ?w1 = "startPreview initialRender allSucceed initialWorld"
  let ?r1 = "state ?w1"
  have direct: "liveStreams (startPreview ?r1 allSucceed ?w1) = [1, 2]"
    "videoStreamRef (startPreview ?r1 allSucceed ?w1) = Some 2"
    "liveStreams (startRecording (state (startRecording initialRender allSucceed initialWorld)) allSucceed
        (startRecording initialRender allSucceed initialWorld)) = [1, 3]"
    by (simp_all add: startPreview_acquires g nextId_startPreview_ok n i startRecording_acquires
        nextId_startRecording_ok state_startRecording_ok)
  have p1: "isPreviewing ?r1" by (simp add: state_startPreview_ok g)
  let ?w2 = "switchCamera ?r1 ?w1"
  have w2: "liveStreams ?w2 = []" "nextId ?w2 = 1" "timeouts ?w2 = [(100, RestartPreview ?r1)]"
    by (simp_all add: switchCamera_previewing [OF p1] stopPreview_fields
        startPreview_acquires g nextId_startPreview_ok timeouts_startPreview_ok n)
  have s1: "switchCameraOffered ?r1"
    by (simp add: state_startPreview_ok g n i switchCameraOffered_def)
  have s2: "startPreviewOffered (state ?w2)"
    by (simp add: switchCamera_previewing stopPreview_fields state_startPreview_ok g n i
        startPreviewOffered_def)
  let ?w3 = "startPreview (state ?w2) allSucceed ?w2"
  have w3: "liveStreams ?w3 = [2]" "nextId ?w3 = 2" "timeouts ?w3 = [(100, RestartPreview ?r1)]"
    by (simp_all add: startPreview_acquires g nextId_startPreview_ok timeouts_startPreview_ok w2)
  have "liveStreams (fireTimeout allSucceed ?w3) = [2, 3]"
    by (simp add: fireTimeout_RestartPreview [OF w3(3)] startPreview_acquires g w3)
  with direct s1 s2 show ?thesis by simp
qed

section \<open>Object URLs\<close>

lemma foldl_revoke_fields:
  "objectUrls (foldl (\<lambda>v u. revokeObjectURL u v) w us) = filter (\<lambda>u. u \<notin> set us) (objectUrls w)"
  "log (foldl (\<lambda>v u. revokeObjectURL u v) w us) = log w @ map RevokeObjectURL us"
  "mm (foldl (\<lambda>v u. revokeObjectURL u v) w us) = mm w"
  "hasGc (foldl (\<lambda>v u. revokeObjectURL u v) w us) = hasGc w"
  "liveStreams (foldl (\<lambda>v u. revokeObjectURL u v) w us) = liveStreams w"
  "state (foldl (\<lambda>v u. revokeObjectURL u v) w us) = state w"
  by (induction us arbitrary: w)
    (auto simp: revokeObjectURL_def emit_def removeAll_filter_not_eq intro: filter_cong)

lemma cleanup_fields:
  "objectUrls (cleanup w) = filter (\<lambda>u. u \<notin> set (urls (mm w))) (objectUrls w)"
  "urls (mm (cleanup w)) = []"
  "chunks (mm (cleanup w)) = []"
  "liveStreams (cleanup w) = liveStreams w"
  "log (cleanup w) = log w @ map RevokeObjectURL (urls (mm w)) @ (if hasGc w then [Gc] else [])"
  by (simp_all add: cleanup_def Let_def foldl_revoke_fields emit_def)

text \<open>\<open>cleanup\<close> revokes every registered URL and empties the registry.\<close>

lemma cleanup_revokes_registered:
  "set (objectUrls (cleanup w)) \<inter> set (urls (mm w)) = {} \<and> urls (mm (cleanup w)) = []"
  by (auto simp: cleanup_fields)

lemma onstop_fields:
  "videoUrl (state (onstop w)) = Some (Suc (Suc (nextId w)))"
  "videoSize (state (onstop w)) = Some (sum_list (map blob_size (recordedChunks w)))"
  "objectUrls (onstop w) = objectUrls w @ [Suc (Suc (nextId w))]"
  "urls (mm (onstop w)) = set_add (Suc (Suc (nextId w))) (urls (mm w))"
  "recordedChunks (onstop w) = []"
  "error (state (onstop w)) = error (state w)"
  by (simp_all add: onstop_def createObjectURL_def fresh_def emit_def setter_defs addUrl_def
      setTimeout_def Let_def)

text \<open>The URL that \<open>onstop\<close> creates is registered, so a later \<open>cleanup\<close> revokes it.\<close>

lemma onstop_url_revoked_by_cleanup:
  "set (objectUrls (cleanup (onstop w))) \<subseteq> set (objectUrls w) - set (urls (mm w))"
  by (auto simp: cleanup_fields onstop_fields set_set_add)

lemma mountEffect_fields:
  "objectUrls (mountEffect w) = objectUrls w @ [Suc (Suc (nextId w))]"
  "mm (mountEffect w) = mm w"
  "videoWorkerRef (mountEffect w) = Some (Suc (Suc (Suc (nextId w))))"
  "animationFrameRef (mountEffect w) = animationFrameRef w"
  "recordingIntervalRef (mountEffect w) = recordingIntervalRef w"
  "nextId (mountEffect w) = Suc (Suc (Suc (nextId w)))"
  by (simp_all add: mountEffect_def createVideoWorker_def createObjectURL_def fresh_def emit_def Let_def)

lemma unmountCleanup_fields:
  "objectUrls (unmountCleanup w) = filter (\<lambda>u. u \<notin> set (urls (mm w))) (objectUrls w)"
  "urls (mm (unmountCleanup w)) = []"
  "liveStreams (unmountCleanup w) = liveStreams w"
  by (simp_all add: unmountCleanup_def cleanup_fields cancelAnimationFrame_def clearInterval_def
      workerTerminate_def emit_def Let_def split: option.splits)

text \<open>
  C5 asks that every object URL the component creates is registered with the memory
  manager, so that none remains un-revoked after the teardown cleanup. The URL that
  \<open>onstop\<close> creates is registered and revoked, but the URL that \<open>createVideoWorker\<close>
  creates for the worker's script is not: mounting creates URL 2 and leaves the registry
  empty, a recording that stops creates and registers URL 5, and after the unmount
  cleanup URL 2 is still not revoked.
\<close>

theorem worker_url_not_revoked:
  "objectUrls (mountEffect initialWorld) = [2]
   \<and> urls (mm (mountEffect initialWorld)) = []
   \<and> objectUrls (unmountCleanup (mountEffect initialWorld)) = [2]
   \<and> objectUrls (onstop (mountEffect initialWorld)) = [2, 5]
   \<and> urls (mm (onstop (mountEffect initialWorld))) = [5]
   \<and> objectUrls (unmountCleanup (onstop (mountEffect initialWorld))) = [2]"
  by (simp add: unmountCleanup_fields mountEffect_fields onstop_fields set_add_def initialWorld_def)

section \<open>Starting a recording\<close>

text \<open>
  C7: when \<open>startRecording\<close> has its stream (that of the running preview, or a newly
  acquired one) and the recorder is constructed, the chunk buffer is empty, the recorder
  has the preferred MIME type if the host supports it and \<open>video/webm\<close> otherwise, and
  its bitrate is 5000000 for 1080p, 2500000 for 720p and 1000000 otherwise.
\<close>

theorem startRecording_configuration:
  assumes "isPreviewing r \<and> videoStreamRef w \<noteq> None \<or> gumAnswer a = None"
    and "recorderAnswer a = None"
  shows "recordedChunks (startRecording r a w) = []
    \<and> (\<exists>m. mediaRecorderRef (startRecording r a w) = Some m
          \<and> mimeType m = (if isTypeSupported a ''video/webm;codecs=vp9,opus''
                          then ''video/webm;codecs=vp9,opus'' else ''video/webm'')
          \<and> videoBitsPerSecond m = (if videoQuality r = ''1080p'' then 5000000
                                     else if videoQuality r = ''720p'' then 2500000
                                     else 1000000))"
  using assms
  by (auto simp: startRecording_def startRecording_try_def setInterval_def setRecorderState_def
      getUserMedia_def fresh_def emit_def setter_defs Let_def split: option.splits)

text \<open>
  At 720p on a host without the preferred codec pair, with two chunks left in the buffer
  by an earlier session; and at 480p on a host that supports the pair.
\<close>

theorem startRecording_configuration_witness:
  "recordedChunks (startRecording (initialRender\<lparr>videoQuality := ''720p''\<rparr>)
       (allSucceed\<lparr>isTypeSupported := (\<lambda>t. t = ''video/webm'')\<rparr>)
       (initialWorld\<lparr>recordedChunks := [Blob 7 10, Blob 8 20]\<rparr>)) = []
   \<and> map_option mimeType (mediaRecorderRef (startRecording (initialRender\<lparr>videoQuality := ''720p''\<rparr>)
       (allSucceed\<lparr>isTypeSupported := (\<lambda>t. t = ''video/webm'')\<rparr>)
       (initialWorld\<lparr>recordedChunks := [Blob 7 10, Blob 8 20]\<rparr>))) = Some ''video/webm''
   \<and> map_option videoBitsPerSecond (mediaRecorderRef (startRecording (initialRender\<lparr>videoQuality := ''720p''\<rparr>)
       (allSucceed\<lparr>isTypeSupported := (\<lambda>t. t = ''video/webm'')\<rparr>)
       (initialWorld\<lparr>recordedChunks := [Blob 7 10, Blob 8 20]\<rparr>))) = Some 2500000
   \<and> map_option mimeType (mediaRecorderRef (startRecording (initialRender\<lparr>videoQuality := ''480p''\<rparr>)
       allSucceed initialWorld)) = Some ''video/webm;codecs=vp9,opus''
   \<and> map_option videoBitsPerSecond (mediaRecorderRef (startRecording (initialRender\<lparr>videoQuality := ''480p''\<rparr>)
       allSucceed initialWorld)) = Some 1000000"
  using
    startRecording_configuration [of "initialRender\<lparr>videoQuality := ''720p''\<rparr>"
      "initialWorld\<lparr>recordedChunks := [Blob 7 10, Blob 8 20]\<rparr>"
      "allSucceed\<lparr>isTypeSupported := (\<lambda>t. t = ''video/webm'')\<rparr>"]
    startRecording_configuration [of "initialRender\<lparr>videoQuality := ''480p''\<rparr>"
      initialWorld allSucceed]
  by (auto simp: allSucceed_def initialRender_def)

section \<open>Stopping a recording\<close>

lemmas handler_defs = startPreview_def startPreview_try_def startPreview_catch_def retryPreview_def
  stopPreview_def startRecording_def startRecording_try_def ondataavailable_def onstop_def
  stopRecording_def switchCamera_def runCallback_def fireTimeout_def createVideoWorker_def
  mountEffect_def unmountCleanup_def cleanup_def addRecordedChunk_def
  getUserMedia_def stopTracks_def createObjectURL_def revokeObjectURL_def cancelAnimationFrame_def
  clearInterval_def setInterval_def setTimeout_def workerTerminate_def recorderStop_def
  setRecorderState_def emit_def fresh_def addChunk_def addUrl_def set_add_def set_delete_def
  getVideoConstraints_def

lemma calls_append: "log w' = log w @ es \<Longrightarrow> calls w w' = es"
  by (simp add: calls_def)

lemma stopRecording_fields:
  "recordedChunks (stopRecording r w) = recordedChunks w"
  "videoStreamRef (stopRecording r w) = videoStreamRef w"
  "animationFrameRef (stopRecording r w) = animationFrameRef w"
  "animationRequests (stopRecording r w) = animationRequests w"
  "srcObject (stopRecording r w) = srcObject w"
  "nextId (stopRecording r w) = nextId w"
  "state (stopRecording r w) = (state w)\<lparr>isRecording := False\<rparr>"
  "intervals (stopRecording r w) = fold removeAll (held (recordingIntervalRef w)) (intervals w)"
  "liveStreams (stopRecording r w)
     = (case (if \<not> isPreviewing r then videoStreamRef w else None) of
          Some s \<Rightarrow> removeAll s (liveStreams w) | None \<Rightarrow> liveStreams w)"
  "log (stopRecording r w) = log w
     @ (case mediaRecorderRef w of
          Some m \<Rightarrow> if rec_state m = ''recording'' then [RecorderStop] else []
        | None \<Rightarrow> [])
     @ map ClearInterval (held (recordingIntervalRef w))
     @ (case (if \<not> isPreviewing r then videoStreamRef w else None) of
          Some s \<Rightarrow> [TrackStop s] | None \<Rightarrow> [])"
  by (simp_all add: stopRecording_def recorderStop_def setRecorderState_def clearInterval_def
      stopTracks_def emit_def held_def setter_defs Let_def split: option.splits)

text \<open>
  C10: \<open>stopRecording\<close> calls the recorder's \<open>stop\<close> exactly when a recorder exists and
  its state is \<open>recording\<close>; it clears the recording timer that \<open>recordingIntervalRef\<close>
  holds; when the component is previewing it stops no track and leaves the live streams
  as they are, and when it is not previewing it stops the tracks of the held stream. The
  stream ref, the video element's source, the pending animation callback and the
  previewing flag are unchanged, and the recording flag is cleared.
\<close>

theorem stopRecording_selective:
  "(RecorderStop \<in> set (calls w (stopRecording r w))
      \<longleftrightarrow> (\<exists>m. mediaRecorderRef w = Some m \<and> rec_state m = ''recording''))
   \<and> (\<forall>t. recordingIntervalRef w = Some t \<and> t \<noteq> 0
        \<longrightarrow> ClearInterval t \<in> set (calls w (stopRecording r w))
          \<and> t \<notin> set (intervals (stopRecording r w)))
   \<and> (isPreviewing r
        \<longrightarrow> liveStreams (stopRecording r w) = liveStreams w
          \<and> (\<forall>s. TrackStop s \<notin> set (calls w (stopRecording r w))))
   \<and> (\<forall>s. \<not> isPreviewing r \<and> videoStreamRef w = Some s
        \<longrightarrow> TrackStop s \<in> set (calls w (stopRecording r w))
          \<and> s \<notin> set (liveStreams (stopRecording r w)))
   \<and> videoStreamRef (stopRecording r w) = videoStreamRef w
   \<and> srcObject (stopRecording r w) = srcObject w
   \<and> animationFrameRef (stopRecording r w) = animationFrameRef w
   \<and> animationRequests (stopRecording r w) = animationRequests w
   \<and> isPreviewing (state (stopRecording r w)) = isPreviewing (state w)
   \<and> \<not> isRecording (state (stopRecording r w))"
proof -
  have c: "calls w (stopRecording r w) =
      (case mediaRecorderRef w of
          Some m \<Rightarrow> if rec_state m = ''recording'' then [RecorderStop] else []
        | None \<Rightarrow> [])
     @ map ClearInterval (held (recordingIntervalRef w))
     @ (case (if \<not> isPreviewing r then videoStreamRef w else None) of
          Some s \<Rightarrow> [TrackStop s] | None \<Rightarrow> [])"
    by (rule calls_append) (rule stopRecording_fields)
  have 1: "RecorderStop \<in> set (calls w (stopRecording r w))
      \<longleftrightarrow> (\<exists>m. mediaRecorderRef w = Some m \<and> rec_state m = ''recording'')"
    unfolding c by (cases "mediaRecorderRef w") auto
  have 2: "\<forall>t. recordingIntervalRef w = Some t \<and> t \<noteq> 0
        \<longrightarrow> ClearInterval t \<in> set (calls w (stopRecording r w))
          \<and> t \<notin> set (intervals (stopRecording r w))"
    unfolding c by (auto simp: stopRecording_fields held_def)
  have 3: "isPreviewing r
        \<longrightarrow> liveStreams (stopRecording r w) = liveStreams w
          \<and> (\<forall>s. TrackStop s \<notin> set (calls w (stopRecording r w)))"
    unfolding c by (auto simp: stopRecording_fields split: option.splits if_splits)
  have 4: "\<forall>s. \<not> isPreviewing r \<and> videoStreamRef w = Some s
        \<longrightarrow> TrackStop s \<in> set (calls w (stopRecording r w))
          \<and> s \<notin> set (liveStreams (stopRecording r w))"
    unfolding c by (auto simp: stopRecording_fields)
  from 1 2 3 4 show ?thesis by (simp add: stopRecording_fields)
qed

text \<open>
  A recording on top of a live preview: stream 1 stays live, the recorder is stopped and
  timer 2 is cleared. A recording without a preview: stream 1 is stopped.
\<close>

theorem stopRecording_selective_witness:
  "isPreviewing (state (startRecording (state (startPreview initialRender allSucceed initialWorld))
       allSucceed (startPreview initialRender allSucceed initialWorld)))
   \<and> recordingIntervalRef (startRecording (state (startPreview initialRender allSucceed initialWorld))
       allSucceed (startPreview initialRender allSucceed initialWorld)) = Some 2
   \<and> liveStreams (stopRecording
       (state (startRecording (state (startPreview initialRender allSucceed initialWorld))
          allSucceed (startPreview initialRender allSucceed initialWorld)))
       (startRecording (state (startPreview initialRender allSucceed initialWorld))
          allSucceed (startPreview initialRender allSucceed initialWorld))) = [1]
   \<and> 2 \<notin> set (intervals (stopRecording
       (state (startRecording (state (startPreview initialRender allSucceed initialWorld))
          allSucceed (startPreview initialRender allSucceed initialWorld)))
       (startRecording (state (startPreview initialRender allSucceed initialWorld))
          allSucceed (startPreview initialRender allSucceed initialWorld))))
   \<and> RecorderStop \<in> set (calls
       (startRecording (state (startPreview initialRender allSucceed initialWorld))
          allSucceed (startPreview initialRender allSucceed initialWorld))
       (stopRecording
         (state (startRecording (state (startPreview initialRender allSucceed initialWorld))
            allSucceed (startPreview initialRender allSucceed initialWorld)))
         (startRecording (state (startPreview initialRender allSucceed initialWorld))
            allSucceed (startPreview initialRender allSucceed initialWorld))))
   \<and> \<not> isPreviewing (state (startRecording initialRender allSucceed initialWorld))
   \<and> videoStreamRef (startRecording initialRender allSucceed initialWorld) = Some 1
   \<and> 1 \<notin> set (liveStreams (stopRecording (state (startRecording initialRender allSucceed initialWorld))
        (startRecording initialRender allSucceed initialWorld)))"
proof -
  let ?p = "startRecording (state (startPreview initialRender allSucceed initialWorld))
       allSucceed (startPreview initialRender allSucceed initialWorld)"
  let ?q = "startRecording initialRender allSucceed initialWorld"
  have p: "isPreviewing (state ?p)" "recordingIntervalRef ?p = Some 2" "liveStreams ?p = [1]"
    "\<exists>m. mediaRecorderRef ?p = Some m \<and> rec_state m = ''recording''"
    by (simp_all add: handler_defs setter_defs Let_def initialWorld_def initialRender_def
        allSucceed_def)
  have q: "\<not> isPreviewing (state ?q)" "videoStreamRef ?q = Some 1"
    by (simp_all add: handler_defs setter_defs Let_def initialWorld_def initialRender_def
        allSucceed_def)
  from stopRecording_selective [of ?p "state ?p"] p
  have "liveStreams (stopRecording (state ?p) ?p) = [1]"
    "2 \<notin> set (intervals (stopRecording (state ?p) ?p))"
    "RecorderStop \<in> set (calls ?p (stopRecording (state ?p) ?p))"
    by simp_all
  moreover from stopRecording_selective [of ?q "state ?q"] q
  have "1 \<notin> set (liveStreams (stopRecording (state ?q) ?q))" by simp
  ultimately show ?thesis using p q by simp
qed

section \<open>Stopping without chunks\<close>

lemma ondataavailable_empty: "blob_size dat = 0 \<Longrightarrow> ondataavailable dat w = w"
  by (simp add: ondataavailable_def)

text \<open>
  C6: when the stop handler finds the chunk buffer empty, it records a size of 0 and
  sets an artifact URL that is newly created, registered and not revoked; it sets no
  error.
\<close>

theorem onstop_without_chunks:
  assumes "recordedChunks w = []"
  shows "videoSize (state (onstop w)) = Some 0
    \<and> videoUrl (state (onstop w)) = Some (Suc (Suc (nextId w)))
    \<and> Suc (Suc (nextId w)) \<in> set (objectUrls (onstop w))
    \<and> Suc (Suc (nextId w)) \<in> set (urls (mm (onstop w)))
    \<and> error (state (onstop w)) = error (state w)"
  using assms by (simp add: onstop_fields set_set_add)

text \<open>
  A session without a chunk: the recording starts, the one data event carries an empty
  blob, which is not appended, and the recording is stopped. The buffer is empty when
  the stop handler runs; the artifact has size 0 and URL 4.
\<close>

theorem onstop_without_chunks_witness:
  "recordedChunks (stopRecording (state (startRecording initialRender allSucceed initialWorld))
      (ondataavailable (Blob 9 0) (startRecording initialRender allSucceed initialWorld))) = []
   \<and> videoSize (state (onstop
       (stopRecording (state (startRecording initialRender allSucceed initialWorld))
         (ondataavailable (Blob 9 0) (startRecording initialRender allSucceed initialWorld)))))
     = Some 0
   \<and> videoUrl (state (onstop
       (stopRecording (state (startRecording initialRender allSucceed initialWorld))
         (ondataavailable (Blob 9 0) (startRecording initialRender allSucceed initialWorld)))))
     = Some 4
   \<and> 4 \<in> set (objectUrls (onstop
       (stopRecording (state (startRecording initialRender allSucceed initialWorld))
         (ondataavailable (Blob 9 0) (startRecording initialRender allSucceed initialWorld)))))"
proof -
  let ?s = "startRecording initialRender allSucceed initialWorld"
  let ?w = "stopRecording (state ?s) (ondataavailable (Blob 9 0) ?s)"
  have e: "recordedChunks ?w = []"
    by (simp add: handler_defs setter_defs Let_def initialWorld_def initialRender_def
        allSucceed_def)
  have n: "nextId ?w = 2"
    by (simp add: handler_defs setter_defs Let_def initialWorld_def initialRender_def
        allSucceed_def)
  from onstop_without_chunks [OF e] e n show ?thesis by simp
qed

section \<open>Teardown\<close>

lemma log_stopPreview:
  "log (stopPreview w) = log w
     @ (case videoStreamRef w of Some s \<Rightarrow> [TrackStop s] | None \<Rightarrow> [])
     @ map CancelAnimationFrame (held (animationFrameRef w))"
  by (simp add: stopPreview_def stopTracks_def cancelAnimationFrame_def emit_def held_def
      setter_defs Let_def split: option.splits)

lemma log_unmountCleanup:
  "log (unmountCleanup w) = log w
     @ map CancelAnimationFrame (held (animationFrameRef w))
     @ map ClearInterval (held (recordingIntervalRef w))
     @ map WorkerTerminate (held (videoWorkerRef w))
     @ map RevokeObjectURL (urls (mm w))
     @ (if hasGc w then [Gc] else [])"
  by (simp add: unmountCleanup_def cleanup_fields cancelAnimationFrame_def clearInterval_def
      workerTerminate_def emit_def held_def Let_def split: option.splits)

lemma filter_isCancelOrRevoke [simp]:
  "filter isCancelOrRevoke (map CancelAnimationFrame xs) = map CancelAnimationFrame xs"
  "filter isCancelOrRevoke (map ClearInterval xs) = map ClearInterval xs"
  "filter isCancelOrRevoke (map RevokeObjectURL xs) = map RevokeObjectURL xs"
  "filter isCancelOrRevoke (map WorkerTerminate xs) = []"
  by (induction xs) auto

text \<open>
  C8, as stated, fails for the explicit stop: with stream 1 held and animation callback
  2 pending, \<open>stopPreview\<close> stops the tracks first and cancels the callback second, and
  it neither clears a timer nor revokes a URL.
\<close>

theorem stopPreview_order_counterexample:
  "calls (initialWorld\<lparr>videoStreamRef := Some 1, liveStreams := [1], animationFrameRef := Some 2,
             animationRequests := [2], nextId := 2\<rparr>)
     (stopPreview (initialWorld\<lparr>videoStreamRef := Some 1, liveStreams := [1],
             animationFrameRef := Some 2, animationRequests := [2], nextId := 2\<rparr>))
   = [TrackStop 1, CancelAnimationFrame 2]"
  by (simp add: calls_append [OF log_stopPreview] held_def)

text \<open>
  C8 (amended): among the calls of the unmount cleanup that cancel or revoke, the
  cancellation of the pending animation callback comes first, then the clearing of the
  recording interval timer, then the revocation of every registered URL in the order of
  registration; each is made when its ref holds a handle. The explicit \<open>stopPreview\<close>
  makes exactly these calls: it stops the tracks of the held stream, then cancels the
  pending animation callback.
\<close>

theorem teardown_order:
  "filter isCancelOrRevoke (calls w (unmountCleanup w))
     = map CancelAnimationFrame (held (animationFrameRef w))
       @ map ClearInterval (held (recordingIntervalRef w))
       @ map RevokeObjectURL (urls (mm w))
   \<and> calls w (stopPreview w)
     = (case videoStreamRef w of Some s \<Rightarrow> [TrackStop s] | None \<Rightarrow> [])
       @ map CancelAnimationFrame (held (animationFrameRef w))"
  by (simp add: calls_append [OF log_unmountCleanup] calls_append [OF log_stopPreview])

text \<open>
  Unmounting while a recording without preview runs, after an earlier recording left URL
  5 registered: animation callback 9 is cancelled, timer 7 is cleared, URL 5 is revoked.
\<close>

theorem teardown_order_witness:
  "filter isCancelOrRevoke
     (calls (initialWorld\<lparr>videoStreamRef := Some 6, liveStreams := [6], animationFrameRef := Some 9,
               animationRequests := [9], recordingIntervalRef := Some 7, intervals := [7],
               mm := \<lparr>chunks = [], urls = [5]\<rparr>, objectUrls := [2, 5], nextId := 9\<rparr>)
        (unmountCleanup
           (initialWorld\<lparr>videoStreamRef := Some 6, liveStreams := [6], animationFrameRef := Some 9,
               animationRequests := [9], recordingIntervalRef := Some 7, intervals := [7],
               mm := \<lparr>chunks = [], urls = [5]\<rparr>, objectUrls := [2, 5], nextId := 9\<rparr>)))
   = [CancelAnimationFrame 9, ClearInterval 7, RevokeObjectURL 5]"
  using teardown_order [of "initialWorld\<lparr>videoStreamRef := Some 6, liveStreams := [6],
               animationFrameRef := Some 9,
               animationRequests := [9], recordingIntervalRef := Some 7, intervals := [7],
               mm := \<lparr>chunks = [], urls = [5]\<rparr>, objectUrls := [2, 5], nextId := 9\<rparr>"]
  by (simp add: held_def)

section \<open>Switching the camera\<close>

lemma switchCamera_not_previewing:
  "\<not> isPreviewing r \<Longrightarrow>
   switchCamera r w = setFacingMode (if facingMode r = ''user'' then ''environment'' else ''user'') w"
  by (simp add: switchCamera_def)

text \<open>Whatever the host answers, \<open>startPreview\<close> requests the constraints of its render.\<close>

lemma acquisitions_startPreview:
  "filter isAcquisition (log (startPreview r a w))
     = filter isAcquisition (log w) @ [GetUserMedia (getVideoConstraints r)]"
  by (simp add: startPreview_def startPreview_try_def startPreview_catch_def getUserMedia_def
      fresh_def Let_def split: option.splits sum.splits)

lemma switchCamera_previewing_fields:
  assumes "isPreviewing r"
  shows "state (switchCamera r w)
      = (state w)\<lparr>facingMode := (if facingMode r = ''user'' then ''environment'' else ''user''),
                  isPreviewing := False\<rparr>"
    and "timeouts (switchCamera r w) = timeouts w @ [(100, RestartPreview r)]"
    and "liveStreams (switchCamera r w)
      = (case videoStreamRef w of Some s \<Rightarrow> removeAll s (liveStreams w) | None \<Rightarrow> liveStreams w)"
    and "filter isAcquisition (log (switchCamera r w)) = filter isAcquisition (log w)"
  using assms
  by (simp_all add: switchCamera_previewing stopPreview_fields log_stopPreview held_def
      split: option.splits)

text \<open>
  The restart that \<open>switchCamera\<close> schedules is the \<open>startPreview\<close> of the render \<open>r\<close> in
  which \<open>switchCamera\<close> was created: it requests the facing mode of \<open>r\<close>, which is the
  mode before the switch.
\<close>

lemma switchCamera_restart_request:
  assumes "isPreviewing r" "timeouts w = []"
  shows "filter isAcquisition (log (fireTimeout a (switchCamera r w)))
      = filter isAcquisition (log w) @ [GetUserMedia (getVideoConstraints r)]"
    and "c_facingMode (getVideoConstraints r) = facingMode r"
proof -
  have "timeouts (switchCamera r w) = (100, RestartPreview r) # []"
    using assms by (simp add: switchCamera_previewing_fields)
  then have "fireTimeout a (switchCamera r w)
      = startPreview r a ((switchCamera r w)\<lparr>timeouts := []\<rparr>)"
    by (rule fireTimeout_RestartPreview)
  then show "filter isAcquisition (log (fireTimeout a (switchCamera r w)))
      = filter isAcquisition (log w) @ [GetUserMedia (getVideoConstraints r)]"
    using assms(1) by (simp add: acquisitions_startPreview switchCamera_previewing_fields)
  show "c_facingMode (getVideoConstraints r) = facingMode r"
    by (simp add: getVideoConstraints_def)
qed

text \<open>
  C9 asks that switching while previewing restarts the preview with the opposite
  facing mode. The code at a preview running with the mode \<open>user\<close>: Switch Camera sets
  the state to \<open>environment\<close>, stops stream 1 and schedules the restart; when the timeout
  fires, the restarted session again requests \<open>user\<close>.
\<close>

theorem switchCamera_restarts_with_old_mode:
  "facingMode (state (startPreview initialRender allSucceed initialWorld)) = ''user''
   \<and> isPreviewing (state (startPreview initialRender allSucceed initialWorld))
   \<and> facingMode (state (fireTimeout allSucceed
        (switchCamera (state (startPreview initialRender allSucceed initialWorld))
           (startPreview initialRender allSucceed initialWorld)))) = ''environment''
   \<and> log (fireTimeout allSucceed
        (switchCamera (state (startPreview initialRender allSucceed initialWorld))
           (startPreview initialRender allSucceed initialWorld)))
     = [GetUserMedia (Constraints ''user'' 1920 1080 30 60), VideoPlay, AddLoadedMetadataListener,
        TrackStop 1, SetTimeout 100,
        GetUserMedia (Constraints ''user'' 1920 1080 30 60), VideoPlay, AddLoadedMetadataListener]"
  by (simp add: handler_defs setter_defs Let_def initialWorld_def initialRender_def allSucceed_def)

end
